theory Spec2Isabelle
  imports Main "HOL-Library.Multiset"
begin

section \<open>JavaScript values and string primitives\<close>

text \<open>
  The Lightning web components are JavaScript. A JavaScript string is modelled as a
  \<^typ>\<open>string\<close> whose characters are the code units U+0000 to U+00FF; numbers are the
  integers together with \<open>NaN\<close> (the components only produce numbers through
  \<open>parseInt\<close> and receive integer identifiers); \<open>undefined\<close> and \<open>null\<close> are kept apart
  because default parameters look at \<open>undefined\<close> only.
\<close>

datatype js_val = JUndefined | JNull | JBool bool | JNum int | JNaN | JStr string

text \<open>\<open>ToBoolean\<close>: what \<open>if (v)\<close>, \<open>!v\<close> and \<open>a || b\<close> look at.\<close>

fun truthy :: "js_val \<Rightarrow> bool" where
  "truthy JUndefined = False"
| "truthy JNull = False"
| "truthy (JBool b) = b"
| "truthy (JNum n) = (n \<noteq> 0)"
| "truthy JNaN = False"
| "truthy (JStr s) = (s \<noteq> [])"

definition js_or :: "js_val \<Rightarrow> js_val \<Rightarrow> js_val" where
  "js_or a b = (if truthy a then a else b)"

text \<open>Strict equality \<open>a === b\<close> on these values: \<open>NaN\<close> equals nothing.\<close>

definition strict_eq :: "js_val \<Rightarrow> js_val \<Rightarrow> bool" where
  "strict_eq a b = (a = b \<and> a \<noteq> JNaN)"

text \<open>\<open>s || d\<close> for a string \<open>s\<close> and a string literal \<open>d\<close>.\<close>

definition str_or :: "string \<Rightarrow> string \<Rightarrow> string" where
  "str_or s d = (if s \<noteq> [] then s else d)"


fun is_string :: "js_val \<Rightarrow> bool" where
  "is_string (JStr s) = True"
| "is_string v = False"

subsection \<open>Decimal digits\<close>

definition digitVal :: "char \<Rightarrow> nat option" where
  "digitVal c =
     map_of [(CHR ''0'', 0), (CHR ''1'', 1), (CHR ''2'', 2), (CHR ''3'', 3), (CHR ''4'', 4),
             (CHR ''5'', 5), (CHR ''6'', 6), (CHR ''7'', 7), (CHR ''8'', 8), (CHR ''9'', 9)] c"

definition digitChar :: "nat \<Rightarrow> char" where
  "digitChar d = ''0123456789'' ! d"

text \<open>The decimal numeral of a natural number, most significant digit first.\<close>

function digitsOf :: "nat \<Rightarrow> string" where
  "digitsOf n = (if n < 10 then [digitChar n] else digitsOf (n div 10) @ [digitChar (n mod 10)])"
  by pat_completeness auto
termination
  by (relation "measure id") auto

declare digitsOf.simps [simp del]

text \<open>\<open>String(v)\<close> and template literals \<open>`${v}`\<close>.\<close>

fun js_String :: "js_val \<Rightarrow> string" where
  "js_String JUndefined = ''undefined''"
| "js_String JNull = ''null''"
| "js_String (JBool b) = (if b then ''true'' else ''false'')"
| "js_String (JNum n) = (if n < 0 then CHR ''-'' # digitsOf (nat (- n)) else digitsOf (nat n))"
| "js_String JNaN = ''NaN''"
| "js_String (JStr s) = s"

subsection \<open>\<open>trim\<close>, \<open>toLowerCase\<close>, \<open>includes\<close>\<close>

text \<open>
  White space and line terminators among the code units below 256: TAB, LF, VT, FF, CR,
  SPACE and NO-BREAK SPACE.
\<close>

definition isWhiteSpace :: "char \<Rightarrow> bool" where
  "isWhiteSpace c = (c \<in> set [CHR 0x09, CHR 0x0A, CHR 0x0B, CHR 0x0C, CHR 0x0D, CHR 0x20, CHR 0xA0])"

definition trim :: "string \<Rightarrow> string" where
  "trim s = rev (dropWhile isWhiteSpace (rev (dropWhile isWhiteSpace s)))"

definition upperLetters :: string where
  "upperLetters = ''ABCDEFGHIJKLMNOPQRSTUVWXYZ'' @
     [CHR 0xC0, CHR 0xC1, CHR 0xC2, CHR 0xC3, CHR 0xC4, CHR 0xC5, CHR 0xC6, CHR 0xC7,
      CHR 0xC8, CHR 0xC9, CHR 0xCA, CHR 0xCB, CHR 0xCC, CHR 0xCD, CHR 0xCE, CHR 0xCF,
      CHR 0xD0, CHR 0xD1, CHR 0xD2, CHR 0xD3, CHR 0xD4, CHR 0xD5, CHR 0xD6,
      CHR 0xD8, CHR 0xD9, CHR 0xDA, CHR 0xDB, CHR 0xDC, CHR 0xDD, CHR 0xDE]"

definition lowerLetters :: string where
  "lowerLetters = ''abcdefghijklmnopqrstuvwxyz'' @
     [CHR 0xE0, CHR 0xE1, CHR 0xE2, CHR 0xE3, CHR 0xE4, CHR 0xE5, CHR 0xE6, CHR 0xE7,
      CHR 0xE8, CHR 0xE9, CHR 0xEA, CHR 0xEB, CHR 0xEC, CHR 0xED, CHR 0xEE, CHR 0xEF,
      CHR 0xF0, CHR 0xF1, CHR 0xF2, CHR 0xF3, CHR 0xF4, CHR 0xF5, CHR 0xF6,
      CHR 0xF8, CHR 0xF9, CHR 0xFA, CHR 0xFB, CHR 0xFC, CHR 0xFD, CHR 0xFE]"

definition toLowerChar :: "char \<Rightarrow> char" where
  "toLowerChar c = (case map_of (zip upperLetters lowerLetters) c of Some d \<Rightarrow> d | None \<Rightarrow> c)"

definition toLowerCase :: "string \<Rightarrow> string" where
  "toLowerCase s = map toLowerChar s"

text \<open>\<open>hay.includes(needle)\<close>: \<open>needle\<close> occurs in \<open>hay\<close> as a contiguous substring.\<close>

fun str_includes :: "string \<Rightarrow> string \<Rightarrow> bool" where
  "str_includes [] needle = (needle = [])"
| "str_includes (c # cs) needle = (take (length needle) (c # cs) = needle \<or> str_includes cs needle)"

subsection \<open>\<open>parseInt(s, 10)\<close>\<close>

text \<open>
  \<open>parseInt\<close> skips leading white space, reads an optional sign, then the longest run of
  decimal digits; with no digit the result is \<open>NaN\<close>. The result is exact here; the
  JavaScript number rounds above \<open>2^53\<close>.
\<close>

fun digitsValue :: "nat \<Rightarrow> string \<Rightarrow> nat" where
  "digitsValue acc [] = acc"
| "digitsValue acc (c # cs) =
     (case digitVal c of None \<Rightarrow> acc | Some d \<Rightarrow> digitsValue (10 * acc + d) cs)"

definition parseDigits :: "string \<Rightarrow> nat option" where
  "parseDigits s =
     (case s of [] \<Rightarrow> None
      | c # cs \<Rightarrow> (case digitVal c of None \<Rightarrow> None | Some d \<Rightarrow> Some (digitsValue 0 s)))"

definition parseInt10 :: "string \<Rightarrow> js_val" where
  "parseInt10 s =
     (let t = dropWhile isWhiteSpace s;
          neg = (t \<noteq> [] \<and> hd t = CHR ''-'');
          u = (if t \<noteq> [] \<and> (hd t = CHR ''-'' \<or> hd t = CHR ''+'') then tl t else t)
      in case parseDigits u of
           None \<Rightarrow> JNaN
         | Some n \<Rightarrow> JNum (if neg then - int n else int n))"

text \<open>\<open>parseInt(v, 10)\<close> on any value converts it to a string first.\<close>

definition js_parseInt :: "js_val \<Rightarrow> js_val" where
  "js_parseInt v = parseInt10 (js_String v)"


section \<open>Errors, toasts and server calls\<close>

text \<open>
  What a \<open>catch (e)\<close> block reads of the value it caught: \<open>e?.body?.message\<close>,
  \<open>e.message\<close> and \<open>String(e)\<close>.
\<close>

record js_error =
  e_body_message :: js_val
  e_message :: js_val
  e_string :: string

text \<open>
  The \<open>TypeError\<close> of calling \<open>toLowerCase\<close> on a value that is not a string; the
  wording of its message is the engine's.
\<close>

definition typeError :: js_error where
  "typeError = \<lparr>e_body_message = JUndefined,
                 e_message = JStr ''toLowerCase is not a function'',
                 e_string = ''TypeError: toLowerCase is not a function''\<rparr>"

text \<open>The outcome of an awaited server call: the promise resolves or rejects.\<close>

datatype 'a promise = Resolved 'a | Rejected js_error

text \<open>\<open>{ label, value, description }\<close> entries of a combobox.\<close>

record ui_option =
  opt_label :: js_val
  opt_value :: js_val
  opt_description :: js_val

text \<open>
  A work item as the server returns it. The wrapper class is declared on the server; the
  fields are the ones the components read, typed as the table columns declare them, and
  \<open>None\<close> is a property the object does not have (\<open>undefined\<close>).
\<close>

record work_item =
  wi_workItemId :: "int option"
  wi_title :: "string option"
  wi_workItemType :: "string option"
  wi_state :: "string option"
  wi_assignedTo :: "string option"
  wi_createdDate :: "string option"
  wi_priority :: "string option"
  wi_description :: "string option"
  wi_url :: "string option"
  wi_id :: "string option"

definition num_val :: "int option \<Rightarrow> js_val" where
  "num_val v = (case v of None \<Rightarrow> JUndefined | Some n \<Rightarrow> JNum n)"

definition str_val :: "string option \<Rightarrow> js_val" where
  "str_val v = (case v of None \<Rightarrow> JUndefined | Some s \<Rightarrow> JStr s)"

text \<open>The dynamic property read \<open>w[k]\<close>.\<close>

definition wi_prop :: "string \<Rightarrow> work_item \<Rightarrow> js_val" where
  "wi_prop k w =
     (if k = ''workItemId'' then num_val (wi_workItemId w)
      else if k = ''title'' then str_val (wi_title w)
      else if k = ''workItemType'' then str_val (wi_workItemType w)
      else if k = ''state'' then str_val (wi_state w)
      else if k = ''assignedTo'' then str_val (wi_assignedTo w)
      else if k = ''createdDate'' then str_val (wi_createdDate w)
      else if k = ''priority'' then str_val (wi_priority w)
      else if k = ''description'' then str_val (wi_description w)
      else if k = ''url'' then str_val (wi_url w)
      else if k = ''id'' then str_val (wi_id w)
      else JUndefined)"

text \<open>The result object of the server methods; \<open>None\<close> in a response is \<open>null\<close>.\<close>

record azure_result =
  r_success :: js_val
  r_message :: js_val
  r_workItemId :: js_val
  r_workItemType :: js_val
  r_title :: js_val
  r_workItemUrl :: js_val
  r_workItems :: "work_item list option"

record create_args =
  ca_configName :: string
  ca_workItemType :: string
  ca_title :: string
  ca_description :: string
  ca_state :: js_val
  ca_priority :: js_val

record update_args =
  ua_configName :: js_val
  ua_workItemId :: js_val
  ua_title :: string
  ua_description :: string
  ua_state :: string
  ua_priority :: js_val

record delete_args =
  da_configName :: js_val
  da_workItemId :: js_val
  da_reason :: js_val

record get_args =
  ga_configName :: js_val
  ga_workItemType :: js_val
  ga_state :: js_val
  ga_maxResults :: js_val

record created_item =
  ci_workItemId :: js_val
  ci_workItemType :: js_val
  ci_title :: js_val
  ci_workItemUrl :: js_val

text \<open>The argument of \<open>this.close(...)\<close> in the creator and in the editor.\<close>

record creator_result =
  cres_success :: bool
  cres_workItem :: "created_item option"
  cres_message :: js_val

record editor_result =
  eres_success :: bool
  eres_workItemId :: js_val
  eres_result :: "azure_result option"

datatype toast_variant = VSuccess | VError | VInfo

text \<open>The options of \<open>UniversalModal.open\<close> that the callers pass.\<close>

record modal_options =
  mo_modalType :: string
  mo_title :: string
  mo_message :: string
  mo_confirmLabel :: string
  mo_cancelLabel :: string
  mo_variant :: string
  mo_requireReason :: bool

text \<open>
  What a handler does besides updating its component, in order: the toasts it dispatches,
  its invocations of the server methods that read, create, update and delete work items,
  the confirmation modal it opens, and the closing of its own modal. The answer of an
  awaited call is an argument of the handler.
\<close>

datatype effect =
    ShowToast string js_val toast_variant "string option"
  | ApexCreateWorkItem create_args
  | ApexUpdateWorkItem update_args
  | ApexDeleteWorkItemWithReason delete_args
  | ApexGetWorkItems get_args
  | OpenUniversalModal modal_options
  | CloseCreator creator_result
  | CloseEditor editor_result

text \<open>\<open>toastUtils\<close>: the component is \<open>this\<close>, which has \<open>dispatchEvent\<close>.\<close>

definition showSuccessToast :: "string \<Rightarrow> js_val \<Rightarrow> effect" where
  "showSuccessToast ttl msg = ShowToast ttl msg VSuccess (Some ''dismissible'')"

definition showErrorToast :: "string \<Rightarrow> js_val \<Rightarrow> effect" where
  "showErrorToast ttl msg = ShowToast ttl msg VError (Some ''sticky'')"

definition showInfoToast :: "string \<Rightarrow> js_val \<Rightarrow> effect" where
  "showInfoToast ttl msg = ShowToast ttl msg VInfo (Some ''dismissible'')"

text \<open>\<open>e?.body?.message || String(e)\<close>\<close>

definition bodyMessageOrString :: "js_error \<Rightarrow> js_val" where
  "bodyMessageOrString e = js_or (e_body_message e) (JStr (e_string e))"

text \<open>\<open>res && res.success\<close> and \<open>res && res.message\<close> on a response that may be \<open>null\<close>.\<close>

definition res_success :: "azure_result option \<Rightarrow> bool" where
  "res_success res = (case res of None \<Rightarrow> False | Some r \<Rightarrow> truthy (r_success r))"

definition res_message :: "azure_result option \<Rightarrow> js_val" where
  "res_message res = (case res of None \<Rightarrow> JNull | Some r \<Rightarrow> r_message r)"

section \<open>universalModal\<close>

record form_field =
  ff_name :: string
  ff_required :: bool
  ff_defaultValue :: js_val

record universal_modal =
  um_modalType :: string
  um_requireReason :: bool
  um_reason :: string
  um_loading :: bool
  um_formConfig :: "form_field list option"
  um_formData :: "(string \<times> js_val) list"

text \<open>The argument of \<open>this.close(...)\<close>; a property the handler leaves out is \<open>undefined\<close>.\<close>

record modal_result =
  mr_confirmed :: bool
  mr_action :: string
  mr_reason :: js_val
  mr_formData :: "(string \<times> js_val) list option"
  mr_rowAction :: js_val
  mr_rowData :: js_val

definition formValue :: "(string \<times> js_val) list \<Rightarrow> string \<Rightarrow> js_val" where
  "formValue fd n = (case map_of fd n of None \<Rightarrow> JUndefined | Some v \<Rightarrow> v)"

definition isFormValid :: "universal_modal \<Rightarrow> bool" where
  "isFormValid m =
     (case um_formConfig m of
        None \<Rightarrow> True
      | Some flds \<Rightarrow>
          list_all (\<lambda>field.
            if ff_required field
            then (let v = formValue (um_formData m) (ff_name field)
                  in v \<noteq> JNull \<and> v \<noteq> JUndefined \<and> trim (js_String v) \<noteq> [])
            else True) flds)"

definition isConfirmDisabled :: "universal_modal \<Rightarrow> bool" where
  "isConfirmDisabled m =
     (if um_modalType m = ''confirm'' then um_requireReason m \<and> trim (um_reason m) = []
      else if um_modalType m = ''form'' then um_loading m \<or> \<not> isFormValid m
      else False)"

definition handleReasonChange :: "universal_modal \<Rightarrow> string \<Rightarrow> universal_modal" where
  "handleReasonChange m v = m\<lparr>um_reason := v\<rparr>"

text \<open>\<open>handleConfirm\<close>: the modal and, when the handler closes it, the result it closes with.\<close>

definition handleConfirm :: "universal_modal \<Rightarrow> universal_modal \<times> modal_result option" where
  "handleConfirm m =
     (if um_modalType m = ''confirm'' then
        (if um_requireReason m \<and> trim (um_reason m) = [] then (m, None)
         else (m, Some \<lparr>mr_confirmed = True, mr_action = ''confirm'',
                         mr_reason = JStr (um_reason m), mr_formData = None,
                         mr_rowAction = JUndefined, mr_rowData = JUndefined\<rparr>))
      else if um_modalType m = ''form'' then
        (if \<not> isFormValid m then (m, None)
         else (m\<lparr>um_loading := True\<rparr>,
               Some \<lparr>mr_confirmed = True, mr_action = ''submit'',
                     mr_reason = JUndefined, mr_formData = Some (um_formData m),
                     mr_rowAction = JUndefined, mr_rowData = JUndefined\<rparr>))
      else if um_modalType m = ''list'' then
        (m, Some \<lparr>mr_confirmed = True, mr_action = ''close'',
                   mr_reason = JUndefined, mr_formData = None,
                   mr_rowAction = JUndefined, mr_rowData = JUndefined\<rparr>)
      else
        (m, Some \<lparr>mr_confirmed = True, mr_action = ''confirm'',
                   mr_reason = JUndefined, mr_formData = None,
                   mr_rowAction = JUndefined, mr_rowData = JUndefined\<rparr>))"

definition handleCancel :: "universal_modal \<Rightarrow> universal_modal \<times> modal_result option" where
  "handleCancel m =
     (m, Some \<lparr>mr_confirmed = False, mr_action = ''cancel'',
                mr_reason = JUndefined, mr_formData = None,
                mr_rowAction = JUndefined, mr_rowData = JUndefined\<rparr>)"

text \<open>\<open>handleRowAction\<close>, the handler of the table that the list type shows.\<close>

definition handleRowAction_modal ::
  "universal_modal \<Rightarrow> js_val \<Rightarrow> js_val \<Rightarrow> universal_modal \<times> modal_result option" where
  "handleRowAction_modal m action row =
     (m, Some \<lparr>mr_confirmed = True, mr_action = ''rowAction'',
                mr_reason = JUndefined, mr_formData = None,
                mr_rowAction = action, mr_rowData = row\<rparr>)"

text \<open>The modal as \<open>UniversalModal.open(options)\<close> creates it.\<close>

definition openModal :: "modal_options \<Rightarrow> universal_modal" where
  "openModal opts =
     \<lparr>um_modalType = mo_modalType opts, um_requireReason = mo_requireReason opts,
      um_reason = [], um_loading = False, um_formConfig = None, um_formData = []\<rparr>"

section \<open>azureDevOpsWorkItemCreator\<close>

text \<open>
  The fields of the component. \<open>modalMode\<close> is read by \<open>loadStatesForType\<close>; the class
  neither declares nor assigns it, so a new component has it \<open>undefined\<close>.
\<close>

record creator =
  cr_selectedConfig :: string
  cr_selectedWorkItemType :: string
  cr_title :: string
  cr_description :: string
  cr_selectedState :: js_val
  cr_selectedPriority :: js_val
  cr_stateOptions :: "ui_option list"
  cr_priorityOptions :: "ui_option list"
  cr_isLoading :: bool
  cr_lastCreatedWorkItem :: "created_item option"
  cr_hasEdit :: bool
  cr_modalMode :: js_val

definition newCreator :: creator where
  "newCreator =
     \<lparr>cr_selectedConfig = [], cr_selectedWorkItemType = [], cr_title = [], cr_description = [],
      cr_selectedState = JStr ''To Do'', cr_selectedPriority = JStr ''2'', cr_stateOptions = [],
      cr_priorityOptions = [], cr_isLoading = False, cr_lastCreatedWorkItem = None,
      cr_hasEdit = False, cr_modalMode = JUndefined\<rparr>"

text \<open>\<open>checkPermission\<close>, given the outcome of \<open>await hasEditPermission()\<close>.\<close>

definition checkPermission_creator :: "creator \<Rightarrow> js_val promise \<Rightarrow> creator" where
  "checkPermission_creator c outcome =
     (case outcome of
        Resolved res \<Rightarrow> c\<lparr>cr_hasEdit := truthy res\<rparr>
      | Rejected e \<Rightarrow> c\<lparr>cr_hasEdit := False\<rparr>)"

definition terminalStates_creator :: "string list" where
  "terminalStates_creator = [''done'', ''closed'', ''resolved'']"

definition copyStateOption :: "ui_option \<Rightarrow> ui_option" where
  "copyStateOption s =
     \<lparr>opt_label = opt_label s, opt_value = opt_value s, opt_description = opt_description s\<rparr>"

text \<open>
  \<open>loadStatesForType\<close>, given the outcome of \<open>await getAvailableStatesForType(...)\<close>;
  \<open>None\<close> is data that is not an array.
\<close>

definition loadStatesForType ::
  "creator \<Rightarrow> ui_option list option promise \<Rightarrow> creator \<times> effect list" where
  "loadStatesForType c outcome =
     (case outcome of
        Rejected e \<Rightarrow> (c, [showErrorToast ''Error loading states'' (bodyMessageOrString e)])
      | Resolved None \<Rightarrow> (c, [])
      | Resolved (Some data) \<Rightarrow>
          (let options = map copyStateOption data;
               options = (if truthy (cr_modalMode c)
                          then filter (\<lambda>opt.
                                 toLowerCase (trim (js_String (js_or (opt_value opt) (JStr []))))
                                   \<notin> set terminalStates_creator) options
                          else options);
               c1 = c\<lparr>cr_stateOptions := options\<rparr>
           in if find (\<lambda>opt. strict_eq (opt_value opt) (cr_selectedState c1))
                   (cr_stateOptions c1) = None
              then (c1\<lparr>cr_selectedState :=
                          (case cr_stateOptions c1 of
                             [] \<Rightarrow> JStr ''To Do''
                           | opt # opts \<Rightarrow> opt_value opt)\<rparr>, [])
              else (c1, [])))"

definition getDefaultPriorityOptions :: "ui_option list" where
  "getDefaultPriorityOptions =
     map (\<lambda>v. \<lparr>opt_label = JStr v, opt_value = JStr v, opt_description = JUndefined\<rparr>)
       [''1'', ''2'', ''3'', ''4'']"

text \<open>
  \<open>loadPriorities\<close>, given the outcome of \<open>await getPriorities()\<close>; \<open>None\<close> is data that
  is \<open>null\<close>, \<open>undefined\<close> or not an array.
\<close>

definition loadPriorities ::
  "creator \<Rightarrow> ui_option list option promise \<Rightarrow> creator \<times> effect list" where
  "loadPriorities c outcome =
     (case outcome of
        Resolved data \<Rightarrow>
          (case data of
             Some (p # ps) \<Rightarrow>
               (c\<lparr>cr_priorityOptions :=
                    map (\<lambda>p. \<lparr>opt_label = opt_label p, opt_value = JStr (js_String (opt_value p)),
                               opt_description = JUndefined\<rparr>) (p # ps)\<rparr>, [])
           | _ \<Rightarrow> (c\<lparr>cr_priorityOptions := getDefaultPriorityOptions\<rparr>, []))
      | Rejected e \<Rightarrow>
          (c\<lparr>cr_priorityOptions := getDefaultPriorityOptions\<rparr>,
           [showErrorToast ''Error loading priorities'' (bodyMessageOrString e)]))"

definition isCreateDisabled :: "creator \<Rightarrow> bool" where
  "isCreateDisabled c =
     (cr_isLoading c \<or> cr_selectedConfig c = [] \<or> cr_selectedWorkItemType c = []
      \<or> trim (cr_title c) = [] \<or> \<not> cr_hasEdit c)"

definition handlePriorityChange_creator :: "creator \<Rightarrow> js_val \<Rightarrow> creator" where
  "handlePriorityChange_creator c v = c\<lparr>cr_selectedPriority := v\<rparr>"

definition handleStateChange_creator :: "creator \<Rightarrow> js_val \<Rightarrow> creator" where
  "handleStateChange_creator c v = c\<lparr>cr_selectedState := v\<rparr>"

text \<open>The argument object of the \<open>createWorkItem\<close> call in \<open>handleCreateWorkItem\<close>.\<close>

definition createRequest :: "creator \<Rightarrow> create_args" where
  "createRequest c =
     \<lparr>ca_configName = cr_selectedConfig c,
      ca_workItemType = cr_selectedWorkItemType c,
      ca_title = trim (cr_title c),
      ca_description = str_or (cr_description c) [],
      ca_state = js_or (cr_selectedState c) (JStr ''To Do''),
      ca_priority = js_parseInt (cr_selectedPriority c)\<rparr>"

text \<open>
  \<open>handleCreateWorkItem\<close>, given the outcome of \<open>await createWorkItem(...)\<close>, which is
  looked at only when the call is made.
\<close>

definition handleCreateWorkItem ::
  "creator \<Rightarrow> azure_result option promise \<Rightarrow> creator \<times> effect list" where
  "handleCreateWorkItem c outcome =
     (if \<not> cr_hasEdit c then
        (c, [showErrorToast ''Permission Denied''
               (JStr ''You do not have permission to create work items.'')])
      else if cr_selectedConfig c = [] \<or> cr_selectedWorkItemType c = [] \<or> trim (cr_title c) = []
      then
        (c, [showErrorToast ''Validation Error''
               (JStr ''Configuration, type and title are required'')])
      else
        (case outcome of
           Resolved res \<Rightarrow>
             (if res_success res then
                (let r = the res;
                     item = \<lparr>ci_workItemId = r_workItemId r, ci_workItemType = r_workItemType r,
                             ci_title = r_title r, ci_workItemUrl = r_workItemUrl r\<rparr>
                 in (c\<lparr>cr_lastCreatedWorkItem := Some item, cr_isLoading := False\<rparr>,
                     [ApexCreateWorkItem (createRequest c),
                      CloseCreator \<lparr>cres_success = True, cres_workItem = Some item,
                                    cres_message = r_message r\<rparr>]))
              else
                (c\<lparr>cr_isLoading := False\<rparr>,
                 [ApexCreateWorkItem (createRequest c),
                  showErrorToast ''Creation Failed''
                    (if truthy (res_message res) then res_message res
                     else JStr ''Unknown error'')]))
         | Rejected err \<Rightarrow>
             (c\<lparr>cr_isLoading := False\<rparr>,
              [ApexCreateWorkItem (createRequest c),
               showErrorToast ''Unexpected Error'' (bodyMessageOrString err)])))"

section \<open>azureDevOpsWorkItemEditor\<close>

record editor =
  ed_workItemId :: js_val
  ed_workItemType :: js_val
  ed_configName :: js_val
  ed_initialTitle :: string
  ed_initialDescription :: string
  ed_initialState :: string
  ed_initialPriority :: js_val
  ed_title :: string
  ed_description :: string
  ed_state :: string
  ed_priority :: js_val
  ed_priorityOptions :: "ui_option list"
  ed_isSaving :: bool

definition defaultPriorityOptions_editor :: "ui_option list" where
  "defaultPriorityOptions_editor =
     [\<lparr>opt_label = JStr ''1'', opt_value = JStr ''1'', opt_description = JUndefined\<rparr>,
      \<lparr>opt_label = JStr ''2'', opt_value = JStr ''2'', opt_description = JUndefined\<rparr>,
      \<lparr>opt_label = JStr ''3'', opt_value = JStr ''3'', opt_description = JUndefined\<rparr>,
      \<lparr>opt_label = JStr ''4'', opt_value = JStr ''4'', opt_description = JUndefined\<rparr>]"

text \<open>
  \<open>wiredPriorities({ error, data })\<close>: the wire adapter hands over the data of
  \<open>getPriorities\<close>, or its error, or neither before the call has completed.
\<close>

definition wiredPriorities ::
  "editor \<Rightarrow> js_error option \<Rightarrow> ui_option list option \<Rightarrow> editor \<times> effect list" where
  "wiredPriorities ed err data =
     (case data of
        Some d \<Rightarrow>
          (let opts = map (\<lambda>p. \<lparr>opt_label = opt_label p, opt_value = opt_value p,
                                 opt_description = JUndefined\<rparr>) d
           in if length opts = 0
              then (ed\<lparr>ed_priorityOptions := defaultPriorityOptions_editor\<rparr>, [])
              else (ed\<lparr>ed_priorityOptions := opts\<rparr>, []))
      | None \<Rightarrow>
          (case err of
             Some e \<Rightarrow>
               (ed\<lparr>ed_priorityOptions := defaultPriorityOptions_editor\<rparr>,
                [showErrorToast ''Error loading priorities'' (bodyMessageOrString e)])
           | None \<Rightarrow> (ed, [])))"

definition handlePriorityChange_editor :: "editor \<Rightarrow> js_val \<Rightarrow> editor" where
  "handlePriorityChange_editor ed v = ed\<lparr>ed_priority := JStr (js_String v)\<rparr>"

definition handleReset :: "editor \<Rightarrow> editor" where
  "handleReset ed =
     ed\<lparr>ed_title := str_or (ed_initialTitle ed) [],
        ed_description := str_or (ed_initialDescription ed) [],
        ed_state := str_or (ed_initialState ed) [],
        ed_priority := js_or (ed_initialPriority ed) (JStr ''2'')\<rparr>"




section \<open>azureDevOpsWorkItemManager\<close>

record row_action =
  ra_label :: string
  ra_name :: string

text \<open>A data column: label, field name, type, sortable, wrap text, initial width.\<close>

datatype column =
    DataColumn string string string bool bool nat
  | ActionColumn "row_action list" nat

text \<open>What \<open>handleError\<close> is given: a caught error object, or a plain value.\<close>

datatype thrown = ThrownError js_error | ThrownVal js_val

record work_item_stats =
  st_total :: nat
  st_inProgress :: nat
  st_completed :: nat

record manager =
  mg_maxRows :: js_val
  mg_workItems :: "work_item list"
  mg_filteredWorkItems :: "work_item list"
  mg_isLoading :: bool
  mg_error :: "thrown option"
  mg_selectedConfig :: string
  mg_selectedTypeFilter :: string
  mg_selectedStateFilter :: string
  mg_searchTerm :: string
  mg_sortedBy :: string
  mg_sortedDirection :: string
  mg_workItemStats :: work_item_stats
  mg_columns :: "column list"
  mg_hasEdit :: bool

definition newManager :: manager where
  "newManager =
     \<lparr>mg_maxRows = JNum 10, mg_workItems = [], mg_filteredWorkItems = [], mg_isLoading = False,
      mg_error = None, mg_selectedConfig = [], mg_selectedTypeFilter = [],
      mg_selectedStateFilter = [], mg_searchTerm = [], mg_sortedBy = ''title'',
      mg_sortedDirection = ''asc'',
      mg_workItemStats = \<lparr>st_total = 0, st_inProgress = 0, st_completed = 0\<rparr>,
      mg_columns = [], mg_hasEdit = False\<rparr>"

definition rowActions :: "manager \<Rightarrow> row_action list" where
  "rowActions m =
     (if mg_hasEdit m
      then [\<lparr>ra_label = ''Edit'', ra_name = ''edit''\<rparr>, \<lparr>ra_label = ''Delete'', ra_name = ''delete''\<rparr>]
      else [])
     @ [\<lparr>ra_label = ''Open in Azure'', ra_name = ''open_azure''\<rparr>]"

definition buildColumns :: "manager \<Rightarrow> column list" where
  "buildColumns m =
     [DataColumn ''ID'' ''workItemId'' ''number'' True False 80,
      DataColumn ''Title'' ''title'' ''text'' True True 300,
      DataColumn ''Type'' ''workItemType'' ''text'' True False 120,
      DataColumn ''State'' ''state'' ''text'' True False 110,
      DataColumn ''Assigned To'' ''assignedTo'' ''text'' True False 150,
      DataColumn ''Created Date'' ''createdDate'' ''date'' True False 130,
      DataColumn ''Priority'' ''priority'' ''text'' True False 100]
     @ [ActionColumn (rowActions m) 100]"

text \<open>The names of the row actions a column list offers.\<close>

fun columnActions :: "column \<Rightarrow> string list" where
  "columnActions (DataColumn l f t srt w i) = []"
| "columnActions (ActionColumn acts i) = map ra_name acts"

definition offeredActions :: "column list \<Rightarrow> string list" where
  "offeredActions cols = concat (map columnActions cols)"

text \<open>\<open>checkPermission\<close>, given the outcome of \<open>await hasEditPermission()\<close>.\<close>

definition checkPermission_manager :: "manager \<Rightarrow> js_val promise \<Rightarrow> manager" where
  "checkPermission_manager m outcome =
     (let m1 = (case outcome of
                  Resolved res \<Rightarrow> m\<lparr>mg_hasEdit := truthy res\<rparr>
                | Rejected e \<Rightarrow> m\<lparr>mg_hasEdit := False\<rparr>)
      in m1\<lparr>mg_columns := buildColumns m1\<rparr>)"

definition createDisabled :: "manager \<Rightarrow> bool" where
  "createDisabled m = (\<not> mg_hasEdit m)"

definition handleError :: "manager \<Rightarrow> string \<Rightarrow> thrown \<Rightarrow> manager \<times> effect list" where
  "handleError m ttl err =
     (m\<lparr>mg_error := Some err\<rparr>,
      [ShowToast ttl
         (case err of
            ThrownError e \<Rightarrow> (if truthy (e_message e) then e_message e else JStr (e_string e))
          | ThrownVal v \<Rightarrow> JStr (js_String v))
         VError None])"

subsection \<open>Sorting\<close>

text \<open>Strings compare by code units.\<close>

fun str_lt :: "string \<Rightarrow> string \<Rightarrow> bool" where
  "str_lt [] [] = False"
| "str_lt [] (y # ys) = True"
| "str_lt (x # xs) [] = False"
| "str_lt (x # xs) (y # ys) =
     (if (of_char x :: nat) < of_char y then True
      else if (of_char y :: nat) < of_char x then False
      else str_lt xs ys)"

text \<open>
  \<open>ToNumber\<close>, for the comparison of values that are not both strings. A string converts
  when it is blank or an integer numeral; any other string is \<open>NaN\<close> here (decimal
  fractions, exponents and hexadecimal numerals denote numbers outside this model; a column
  of the table never holds both numbers and strings).
\<close>

definition strToNumber :: "string \<Rightarrow> js_val" where
  "strToNumber s =
     (let t = trim s;
          neg = (t \<noteq> [] \<and> hd t = CHR ''-'');
          u = (if t \<noteq> [] \<and> (hd t = CHR ''-'' \<or> hd t = CHR ''+'') then tl t else t)
      in if t = [] then JNum 0
         else if u \<noteq> [] \<and> list_all (\<lambda>c. digitVal c \<noteq> None) u
         then JNum (if neg then - int (digitsValue 0 u) else int (digitsValue 0 u))
         else JNaN)"

fun toNumber :: "js_val \<Rightarrow> js_val" where
  "toNumber JUndefined = JNaN"
| "toNumber JNull = JNum 0"
| "toNumber (JBool b) = JNum (if b then 1 else 0)"
| "toNumber (JNum n) = JNum n"
| "toNumber JNaN = JNaN"
| "toNumber (JStr s) = strToNumber s"

text \<open>The relational comparison \<open>a < b\<close>.\<close>

definition js_lt :: "js_val \<Rightarrow> js_val \<Rightarrow> bool" where
  "js_lt a b =
     (case (a, b) of
        (JStr x, JStr y) \<Rightarrow> str_lt x y
      | _ \<Rightarrow> (case (toNumber a, toNumber b) of
                (JNum x, JNum y) \<Rightarrow> x < y
              | _ \<Rightarrow> False))"

text \<open>
  The comparator of \<open>sortData\<close>. When \<open>va\<close> is a string, \<open>vb.toLowerCase()\<close> is called
  too, which raises a \<open>TypeError\<close> unless \<open>vb\<close> is a string.
\<close>

definition compareItems :: "string \<Rightarrow> int \<Rightarrow> work_item \<Rightarrow> work_item \<Rightarrow> js_error + int" where
  "compareItems k rv a b =
     (case wi_prop k a of
        JStr sa \<Rightarrow>
          (case wi_prop k b of
             JStr sb \<Rightarrow>
               (let va = JStr (toLowerCase sa); vb = JStr (toLowerCase sb)
                in Inr (if js_lt va vb then - 1 * rv else if js_lt vb va then 1 * rv else 0))
           | _ \<Rightarrow> Inl typeError)
      | va \<Rightarrow>
          (let vb = wi_prop k b
           in Inr (if js_lt va vb then - 1 * rv else if js_lt vb va then 1 * rv else 0)))"

text \<open>
  \<open>Array.prototype.sort\<close> is stable; the order of the comparator calls is left to the
  engine. Here each element is inserted into the sorted rest, in front of the first element
  it does not come after, and an exception of the comparator ends the sort.
\<close>

fun insertBy :: "('a \<Rightarrow> 'a \<Rightarrow> js_error + int) \<Rightarrow> 'a \<Rightarrow> 'a list \<Rightarrow> js_error + 'a list" where
  "insertBy cmp x [] = Inr [x]"
| "insertBy cmp x (y # ys) =
     (case cmp x y of
        Inl e \<Rightarrow> Inl e
      | Inr c \<Rightarrow>
          if c \<le> 0 then Inr (x # y # ys)
          else (case insertBy cmp x ys of Inl e \<Rightarrow> Inl e | Inr r \<Rightarrow> Inr (y # r)))"

fun sortBy :: "('a \<Rightarrow> 'a \<Rightarrow> js_error + int) \<Rightarrow> 'a list \<Rightarrow> js_error + 'a list" where
  "sortBy cmp [] = Inr []"
| "sortBy cmp (x # xs) =
     (case sortBy cmp xs of Inl e \<Rightarrow> Inl e | Inr r \<Rightarrow> insertBy cmp x r)"

definition sortData :: "manager \<Rightarrow> work_item list \<Rightarrow> js_error + work_item list" where
  "sortData m d =
     (let k = mg_sortedBy m;
          rv = (if mg_sortedDirection m = ''desc'' then - 1 else 1)
      in sortBy (compareItems k rv) d)"

subsection \<open>Filtering\<close>

text \<open>\<open>(v || '')\<close> on a text field.\<close>

definition orEmpty :: "string option \<Rightarrow> string" where
  "orEmpty v = (case v of None \<Rightarrow> [] | Some s \<Rightarrow> s)"

definition matchesSearch :: "string \<Rightarrow> work_item \<Rightarrow> bool" where
  "matchesSearch s i =
     (str_includes (toLowerCase (orEmpty (wi_title i))) s
      \<or> str_includes (js_String (num_val (wi_workItemId i))) s
      \<or> str_includes (toLowerCase (orEmpty (wi_assignedTo i))) s)"

text \<open>The list \<open>f\<close> of \<open>applyFilters\<close> when it reaches \<open>this.sortData(f)\<close>.\<close>

definition filterItems :: "manager \<Rightarrow> work_item list" where
  "filterItems m =
     (let f = mg_workItems m;
          s = toLowerCase (mg_searchTerm m);
          f = (if s \<noteq> [] then filter (matchesSearch s) f else f);
          f = (if mg_selectedTypeFilter m \<noteq> []
               then filter (\<lambda>i. wi_workItemType i = Some (mg_selectedTypeFilter m)) f else f);
          f = (if mg_selectedStateFilter m \<noteq> []
               then filter (\<lambda>i. wi_state i = Some (mg_selectedStateFilter m)) f else f)
      in f)"

text \<open>\<open>applyFilters\<close>: an exception of \<open>sortData\<close> leaves the component as it was.\<close>

definition applyFilters :: "manager \<Rightarrow> js_error + manager" where
  "applyFilters m =
     (case sortData m (filterItems m) of
        Inl e \<Rightarrow> Inl e
      | Inr f \<Rightarrow> Inr (m\<lparr>mg_filteredWorkItems := f\<rparr>))"

definition stateIn :: "string list \<Rightarrow> work_item \<Rightarrow> bool" where
  "stateIn names i = (case wi_state i of None \<Rightarrow> False | Some s \<Rightarrow> s \<in> set names)"

definition calculateStats :: "manager \<Rightarrow> manager" where
  "calculateStats m =
     m\<lparr>mg_workItemStats :=
         \<lparr>st_total = length (mg_workItems m),
          st_inProgress = length (filter (stateIn [''Active'', ''Doing'', ''In Progress'']) (mg_workItems m)),
          st_completed = length (filter (stateIn [''Closed'', ''Done'', ''Resolved'']) (mg_workItems m))\<rparr>\<rparr>"

definition handleTypeFilterChange :: "manager \<Rightarrow> string \<Rightarrow> js_error + manager" where
  "handleTypeFilterChange m v = applyFilters (m\<lparr>mg_selectedTypeFilter := v\<rparr>)"

definition handleStateFilterChange :: "manager \<Rightarrow> string \<Rightarrow> js_error + manager" where
  "handleStateFilterChange m v = applyFilters (m\<lparr>mg_selectedStateFilter := v\<rparr>)"

subsection \<open>Loading and deleting\<close>

text \<open>The argument object of the \<open>getWorkItems\<close> call in \<open>loadWorkItems\<close>.\<close>

definition loadRequest :: "manager \<Rightarrow> get_args" where
  "loadRequest m =
     \<lparr>ga_configName = JStr (mg_selectedConfig m),
      ga_workItemType = js_or (JStr (mg_selectedTypeFilter m)) JNull,
      ga_state = js_or (JStr (mg_selectedStateFilter m)) JNull,
      ga_maxResults = js_or (mg_maxRows m) (JNum 50)\<rparr>"

text \<open>\<open>{ ...w, id: `${w.workItemId}` }\<close>\<close>

definition withId :: "work_item \<Rightarrow> work_item" where
  "withId w = w\<lparr>wi_id := Some (js_String (num_val (wi_workItemId w)))\<rparr>"

definition itemsOrEmpty :: "azure_result option \<Rightarrow> work_item list" where
  "itemsOrEmpty res =
     (case res of None \<Rightarrow> []
      | Some r \<Rightarrow> (case r_workItems r of None \<Rightarrow> [] | Some ws \<Rightarrow> ws))"

text \<open>\<open>loadWorkItems\<close>, given the outcome of \<open>await getWorkItems(...)\<close>.\<close>

definition loadWorkItems ::
  "manager \<Rightarrow> azure_result option promise \<Rightarrow> manager \<times> effect list" where
  "loadWorkItems m outcome =
     (if mg_selectedConfig m = [] then (m, [])
      else
        (let call = ApexGetWorkItems (loadRequest m);
             (m1, effs) =
               (case outcome of
                  Resolved res \<Rightarrow>
                    (if res_success res then
                       (let m0 = m\<lparr>mg_workItems := map withId (itemsOrEmpty res)\<rparr>
                        in case applyFilters m0 of
                             Inl e \<Rightarrow> handleError m0 ''Failed to load work items'' (ThrownError e)
                           | Inr m' \<Rightarrow> (calculateStats m', []))
                     else handleError m ''Failed to load work items'' (ThrownVal (res_message res)))
                | Rejected e \<Rightarrow> handleError m ''Failed to load work items'' (ThrownError e))
         in (m1\<lparr>mg_isLoading := False\<rparr>, call # effs)))"

definition deleteModalOptions :: modal_options where
  "deleteModalOptions =
     \<lparr>mo_modalType = ''confirm'', mo_title = ''Confirm Deletion'',
      mo_message = ''Are you sure you want to delete the record?'',
      mo_confirmLabel = ''Delete'', mo_cancelLabel = ''Cancel'',
      mo_variant = ''destructive'', mo_requireReason = False\<rparr>"

text \<open>\<open>!modalResult || !modalResult.confirmed\<close>; \<open>None\<close> is a modal dismissed without a result.\<close>

definition notConfirmed :: "modal_result option \<Rightarrow> bool" where
  "notConfirmed modalResult = (case modalResult of None \<Rightarrow> True | Some r \<Rightarrow> \<not> mr_confirmed r)"

text \<open>\<open>modalResult.reason || null\<close>\<close>

definition reasonOrNull :: "modal_result option \<Rightarrow> js_val" where
  "reasonOrNull modalResult =
     (case modalResult of None \<Rightarrow> JNull | Some r \<Rightarrow> js_or (mr_reason r) JNull)"

definition deleteRequest_manager :: "manager \<Rightarrow> work_item \<Rightarrow> modal_result option \<Rightarrow> delete_args" where
  "deleteRequest_manager m row modalResult =
     \<lparr>da_configName = JStr (mg_selectedConfig m),
      da_workItemId = js_or (num_val (wi_workItemId row)) (str_val (wi_id row)),
      da_reason = reasonOrNull modalResult\<rparr>"

text \<open>
  \<open>handleDeleteAction(row)\<close>, given what the confirmation modal resolves with, the outcome
  of \<open>await deleteWorkItemWithReason(...)\<close> and the outcome of the \<open>getWorkItems\<close> call of
  the reload; each is looked at only when the handler gets there.
\<close>

definition handleDeleteAction ::
  "manager \<Rightarrow> work_item \<Rightarrow> modal_result option \<Rightarrow> azure_result option promise \<Rightarrow>
   azure_result option promise \<Rightarrow> manager \<times> effect list" where
  "handleDeleteAction m row modalResult delOutcome loadOutcome =
     (if notConfirmed modalResult then (m, [OpenUniversalModal deleteModalOptions])
      else
        (let call = ApexDeleteWorkItemWithReason (deleteRequest_manager m row modalResult);
             (m1, effs) =
               (case delOutcome of
                  Resolved res \<Rightarrow>
                    (if res_success res then
                       (let (m', effs') = loadWorkItems m loadOutcome
                        in (m', showSuccessToast ''Deleted''
                                  (js_or (r_message (the res)) (JStr ''Work item deleted'')) # effs'))
                     else
                       (m, [showErrorToast ''Delete Failed''
                              (if truthy (res_message res) then res_message res
                               else JStr ''Unknown error'')]))
                | Rejected e \<Rightarrow> handleError m ''Delete failed'' (ThrownError e))
         in (m1, OpenUniversalModal deleteModalOptions # call # effs)))"

section \<open>AzureWorkItemList\<close>

text \<open>
  \<open>_lastWorkItemsSerialized\<close> holds the JSON text of the items last taken over; it is kept
  here as those items, \<open>None\<close> for the initial empty text, which is the JSON text of no list.
\<close>

record work_item_list =
  wl_configName :: js_val
  wl_maxRows :: js_val
  wl_workItems :: "work_item list"
  wl_isLoading :: bool
  wl_lastWorkItemsSerialized :: "work_item list option"

definition newWorkItemList :: work_item_list where
  "newWorkItemList =
     \<lparr>wl_configName = JUndefined, wl_maxRows = JNum 25, wl_workItems = [], wl_isLoading = False,
      wl_lastWorkItemsSerialized = None\<rparr>"

definition listRequest :: "work_item_list \<Rightarrow> get_args" where
  "listRequest l =
     \<lparr>ga_configName = wl_configName l, ga_workItemType = JUndefined, ga_state = JUndefined,
      ga_maxResults = wl_maxRows l\<rparr>"

text \<open>\<open>load\<close>, given the outcome of \<open>await getWorkItems(...)\<close>.\<close>

definition load :: "work_item_list \<Rightarrow> azure_result option promise \<Rightarrow> work_item_list \<times> effect list" where
  "load l outcome =
     (if \<not> truthy (wl_configName l) then (l, [])
      else
        (let call = ApexGetWorkItems (listRequest l);
             (l1, effs) =
               (case outcome of
                  Resolved res \<Rightarrow>
                    (if res_success res then
                       (let incoming = itemsOrEmpty res
                        in if Some incoming \<noteq> wl_lastWorkItemsSerialized l
                           then (l\<lparr>wl_workItems := map withId incoming,
                                    wl_lastWorkItemsSerialized := Some incoming\<rparr>, [])
                           else (l, []))
                     else (l, [showErrorToast ''Load failed'' (res_message res)]))
                | Rejected e \<Rightarrow> (l, [showErrorToast ''Load failed'' (e_message e)]))
         in (l1\<lparr>wl_isLoading := False\<rparr>, call # effs)))"

definition deleteRequest_list :: "work_item_list \<Rightarrow> work_item \<Rightarrow> modal_result option \<Rightarrow> delete_args" where
  "deleteRequest_list l r modalResult =
     \<lparr>da_configName = wl_configName l,
      da_workItemId = num_val (wi_workItemId r),
      da_reason = reasonOrNull modalResult\<rparr>"

text \<open>
  \<open>handleRowAction(e)\<close> of the list: \<open>a\<close> is \<open>e.detail.action && e.detail.action.name\<close>,
  \<open>r\<close> the row.
\<close>

definition handleRowAction_list ::
  "work_item_list \<Rightarrow> js_val \<Rightarrow> work_item \<Rightarrow> modal_result option \<Rightarrow> azure_result option promise \<Rightarrow>
   azure_result option promise \<Rightarrow> work_item_list \<times> effect list" where
  "handleRowAction_list l a r modalResult delOutcome loadOutcome =
     (if strict_eq a (JStr ''delete'') then
        (if notConfirmed modalResult then (l, [OpenUniversalModal deleteModalOptions])
         else
           (let call = ApexDeleteWorkItemWithReason (deleteRequest_list l r modalResult);
                (l1, effs) =
                  (case delOutcome of
                     Resolved res \<Rightarrow>
                       (if res_success res then
                          (let (l', effs') = load l loadOutcome
                           in (l', showSuccessToast ''Deleted''
                                     (js_or (r_message (the res)) (JStr ''Work item deleted'')) # effs'))
                        else (l, [showErrorToast ''Delete failed'' (res_message res)]))
                   | Rejected err \<Rightarrow> (l, [showErrorToast ''Delete failed'' (e_message err)]))
            in (l1, OpenUniversalModal deleteModalOptions # call # effs)))
      else (l, []))"

section \<open>azureIntegration\<close>

text \<open>The argument object of \<open>fetchWorkItems\<close>; a property left out is \<open>undefined\<close>.\<close>

record fetch_args =
  fa_configName :: js_val
  fa_workItemType :: js_val
  fa_state :: js_val
  fa_maxResults :: js_val

text \<open>A default of the parameter pattern replaces \<open>undefined\<close> only.\<close>

definition withDefault :: "js_val \<Rightarrow> js_val \<Rightarrow> js_val" where
  "withDefault v d = (if v = JUndefined then d else v)"

text \<open>The argument object \<open>fetchWorkItems\<close> calls \<open>getWorkItems\<close> with.\<close>

definition fetchWorkItems :: "fetch_args \<Rightarrow> get_args" where
  "fetchWorkItems a =
     \<lparr>ga_configName = fa_configName a,
      ga_workItemType = withDefault (fa_workItemType a) JNull,
      ga_state = withDefault (fa_state a) JNull,
      ga_maxResults = withDefault (fa_maxResults a) (JNum 50)\<rparr>"

section \<open>The service layer (Apex)\<close>

text \<open>
  The Apex classes are not among the sources. Two methods of \<open>AzureDevOpsService\<close> are
  quoted in part in the repository's coding instructions; they are modelled from the
  specification, along the quoted lines where there are any.
\<close>

subsection \<open>Dual authentication\<close>

record azure_config =
  cfg_namedCredential :: "string option"
  cfg_personalAccessToken :: "string option"

text \<open>
  Modelled from the spec: \<open>hasNamedCredential()\<close> and \<open>hasPersonalAccessToken()\<close> of the
  connection configuration, which the excerpt calls and does not show. A configuration
  holds an optional managed credential and an optional secret token (section 3).
\<close>

definition hasNamedCredential :: "azure_config \<Rightarrow> bool" where
  "hasNamedCredential config = (cfg_namedCredential config \<noteq> None)"

definition hasPersonalAccessToken :: "azure_config \<Rightarrow> bool" where
  "hasPersonalAccessToken config = (cfg_personalAccessToken config \<noteq> None)"

datatype apex_exception =
    AzureDevOpsException string
  | ConfigurationError
  | OtherException string

fun isAzureDevOpsException :: "apex_exception \<Rightarrow> bool" where
  "isAzureDevOpsException (AzureDevOpsException msg) = True"
| "isAzureDevOpsException ex = False"

text \<open>An attempt with the token carries the token it was given, \<open>None\<close> for \<open>null\<close>.\<close>

datatype auth_attempt = ViaNamedCredential | ViaPersonalAccessToken "string option"

fun isTokenAttempt :: "auth_attempt \<Rightarrow> bool" where
  "isTokenAttempt (ViaPersonalAccessToken tok) = True"
| "isTokenAttempt ViaNamedCredential = False"

datatype apex_value = AStr string | AInt int | ANull

type_synonym field_set = "(string \<times> apex_value) list"

text \<open>
  Modelled from the spec: the statements of \<open>AzureDevOpsService.createWorkItem\<close> after the
  quoted \<open>if (config.hasNamedCredential())\<close> block, which the excerpt does not show. With
  only the secret token configured it is used directly; with neither mechanism the call
  fails with a configuration error before any attempt (section 4.3).
\<close>

definition withoutNamedCredential ::
  "(string option \<Rightarrow> azure_config \<Rightarrow> string \<Rightarrow> field_set \<Rightarrow> apex_exception + 'r) \<Rightarrow>
   azure_config \<Rightarrow> string \<Rightarrow> field_set \<Rightarrow> (apex_exception + 'r) \<times> auth_attempt list" where
  "withoutNamedCredential withToken config type flds =
     (if hasPersonalAccessToken config then
        (withToken (cfg_personalAccessToken config) config type flds,
         [ViaPersonalAccessToken (cfg_personalAccessToken config)])
      else (Inl ConfigurationError, []))"

text \<open>
  Modelled from the spec: \<open>AzureDevOpsService.createWorkItem(config, type, fields)\<close>, which
  is not among the sources (section 4.3). The branch for a configuration with a managed
  credential follows the lines the coding instructions quote from it: the managed strategy
  is tried, and when it raises the domain exception and the configuration has a secret
  token, the token strategy is tried and decides; otherwise the exception is raised again. The
  two strategies \<open>createWorkItemWithNamedCredential\<close> and the token overload of
  \<open>createWorkItem\<close> are parameters; each call of one is one authentication attempt, and the
  attempts are returned in order beside the result.
\<close>

definition createWorkItem_service ::
  "(azure_config \<Rightarrow> string \<Rightarrow> field_set \<Rightarrow> apex_exception + 'r) \<Rightarrow>
   (string option \<Rightarrow> azure_config \<Rightarrow> string \<Rightarrow> field_set \<Rightarrow> apex_exception + 'r) \<Rightarrow>
   azure_config \<Rightarrow> string \<Rightarrow> field_set \<Rightarrow> (apex_exception + 'r) \<times> auth_attempt list" where
  "createWorkItem_service withNamedCredential withToken config type flds =
     (if hasNamedCredential config then
        (case withNamedCredential config type flds of
           Inr r \<Rightarrow> (Inr r, [ViaNamedCredential])
         | Inl ex \<Rightarrow>
             (if isAzureDevOpsException ex then
                (if hasPersonalAccessToken config then
                   (withToken (cfg_personalAccessToken config) config type flds,
                    [ViaNamedCredential, ViaPersonalAccessToken (cfg_personalAccessToken config)])
                 else (Inl ex, [ViaNamedCredential]))
              else (Inl ex, [ViaNamedCredential])))
      else withoutNamedCredential withToken config type flds)"

subsection \<open>Terminal states and the patch\<close>

definition stateField :: string where
  "stateField = ''System.State''"

text \<open>The terminal-state names in the quoted lines of \<open>removeTerminalState\<close>.\<close>

definition terminalStates :: "string list" where
  "terminalStates = [''Done'', ''Closed'', ''Resolved'']"

definition containsKey :: "field_set \<Rightarrow> string \<Rightarrow> bool" where
  "containsKey flds k = (k \<in> set (map fst flds))"

definition removeKey :: "field_set \<Rightarrow> string \<Rightarrow> field_set" where
  "removeKey flds k = filter (\<lambda>kv. fst kv \<noteq> k) flds"

text \<open>
  Modelled from the spec: the argument of \<open>terminalStates.contains(...)\<close>, which the quoted
  \<open>removeTerminalState\<close> elides. The value of the state field matches a terminal-state name
  by a case-insensitive comparison (section 4.4).
\<close>

definition matchesTerminalState :: "string list \<Rightarrow> apex_value option \<Rightarrow> bool" where
  "matchesTerminalState names v =
     (case v of
        Some (AStr s) \<Rightarrow> toLowerCase s \<in> set (map toLowerCase names)
      | _ \<Rightarrow> False)"

text \<open>
  Modelled from the spec: \<open>AzureDevOpsService.removeTerminalState\<close>, which is not among
  the sources (section 4.4). It follows the lines the coding instructions quote from it,
  with the terminal-state names as a parameter: the state field is removed from a copy of
  the fields when the fields contain it and its value matches.
\<close>

definition removeTerminalState :: "string list \<Rightarrow> field_set \<Rightarrow> field_set" where
  "removeTerminalState names flds =
     (if containsKey flds stateField \<and> matchesTerminalState names (map_of flds stateField)
      then removeKey flds stateField
      else flds)"

record patch_operation =
  po_op :: string
  po_path :: string
  po_value :: apex_value

text \<open>
  Modelled from the spec: \<open>PatchCodec.buildPatch\<close> (\<open>buildPatchBody\<close> of the service
  layer), which is not among the sources. Each key/value pair of the field set becomes one
  \<open>add\<close> operation with the path \<open>/fields/<key>\<close>, in the order of the field set
  (section 4.4).
\<close>

definition buildPatch :: "field_set \<Rightarrow> patch_operation list" where
  "buildPatch flds =
     map (\<lambda>kv. \<lparr>po_op = ''add'', po_path = ''/fields/'' @ fst kv, po_value = snd kv\<rparr>) flds"

text \<open>
  Modelled from the spec: the encoding steps of \<open>WorkItemService.createWorkItem\<close> and
  \<open>updateWorkItem\<close>, which are not among the sources. The patch of a create operation is
  built from the fields after terminal-state stripping, the patch of an update from the
  fields as they are (section 4.5).
\<close>

definition createPatch :: "string list \<Rightarrow> field_set \<Rightarrow> patch_operation list" where
  "createPatch names flds = buildPatch (removeTerminalState names flds)"

definition updatePatch :: "field_set \<Rightarrow> patch_operation list" where
  "updatePatch flds = buildPatch flds"

subsection \<open>Reading work items\<close>

datatype service_error = ValidationError | ConfigNotFound

definition optionalFilter :: "string option \<Rightarrow> string option \<Rightarrow> bool" where
  "optionalFilter flt v = (case flt of None \<Rightarrow> True | Some t \<Rightarrow> v = Some t)"

text \<open>
  Modelled from the spec: \<open>WorkItemService.getWorkItems(configName, typeFilter?,
  stateFilter?, maxResults)\<close> (\<open>AzureDevOpsController.getWorkItems\<close>), which is not among
  the sources. \<open>maxResults\<close> is 50 when unspecified and must be a positive integer, or the
  call fails with \<open>ValidationError\<close>; it bounds the size of the remote query, and the
  filters are applied to what the query returns (section 4.5). The remote work items are
  a parameter.
\<close>

definition getWorkItems_service ::
  "work_item list \<Rightarrow> string option \<Rightarrow> string option \<Rightarrow> int option \<Rightarrow>
   service_error + work_item list" where
  "getWorkItems_service remote typeFilter stateFilter maxResults =
     (let m = (case maxResults of None \<Rightarrow> 50 | Some n \<Rightarrow> n)
      in if m \<le> 0 then Inl ValidationError
         else Inr (filter (\<lambda>i. optionalFilter typeFilter (wi_workItemType i)
                               \<and> optionalFilter stateFilter (wi_state i))
                     (take (nat m) remote)))"

section \<open>Predicates used in the statements\<close>

text \<open>The server invocations among the effects of a handler.\<close>

fun isDeleteCall :: "effect \<Rightarrow> bool" where
  "isDeleteCall (ApexDeleteWorkItemWithReason a) = True"
| "isDeleteCall eff = False"

text \<open>
  The sort column holds a string in every item or in none of them; then no comparator call
  of \<open>sortData\<close> can raise, whichever pairs the engine compares.
\<close>

definition sortKeysUniform :: "string \<Rightarrow> work_item list \<Rightarrow> bool" where
  "sortKeysUniform k items =
     (list_all (\<lambda>i. is_string (wi_prop k i)) items
      \<or> list_all (\<lambda>i. \<not> is_string (wi_prop k i)) items)"

text \<open>A work item with an identifier, a title, a type and a state, for the examples.\<close>

definition sampleItem :: "int \<Rightarrow> string \<Rightarrow> string \<Rightarrow> string \<Rightarrow> work_item" where
  "sampleItem n ttl ty st =
     \<lparr>wi_workItemId = Some n, wi_title = Some ttl, wi_workItemType = Some ty, wi_state = Some st,
      wi_assignedTo = None, wi_createdDate = None, wi_priority = None, wi_description = None,
      wi_url = None, wi_id = None\<rparr>"

section \<open>Properties\<close>

subsection \<open>Blank strings\<close>

lemma dropWhile_all_iff: "(\<forall>x\<in>set (dropWhile P xs). P x) = (\<forall>x\<in>set xs. P x)"
proof
  assume a: "\<forall>x\<in>set (dropWhile P xs). P x"
  have "dropWhile P xs = []"
  proof (rule ccontr)
    assume "dropWhile P xs \<noteq> []"
    then have "\<not> P (hd (dropWhile P xs))" and "hd (dropWhile P xs) \<in> set (dropWhile P xs)"
      by (simp_all add: hd_dropWhile)
    with a show False by blast
  qed
  then show "\<forall>x\<in>set xs. P x" by simp
next
  assume "\<forall>x\<in>set xs. P x"
  then show "\<forall>x\<in>set (dropWhile P xs). P x" by (meson set_dropWhileD)
qed

lemma trim_blank: "(trim s = []) = list_all isWhiteSpace s"
  by (simp add: trim_def dropWhile_all_iff list_all_iff)

subsection \<open>The confirmation modal\<close>

text \<open>
  Claim C8. In a modal of type \<open>confirm\<close> that requires a reason, \<open>handleConfirm\<close> leaves
  the modal open exactly when the reason is empty or consists of white space only, and the
  confirm button is disabled exactly then; when it closes the modal, the result is confirmed
  and carries the reason, which is not blank. \<open>handleCancel\<close> closes with a result that is
  not confirmed.
\<close>

theorem handleConfirm_requires_reason:
  assumes "um_modalType m = ''confirm''" and "um_requireReason m"
  shows "(snd (handleConfirm m) = None) = list_all isWhiteSpace (um_reason m)
       \<and> isConfirmDisabled m = list_all isWhiteSpace (um_reason m)
       \<and> fst (handleConfirm m) = m
       \<and> (\<forall>r. snd (handleConfirm m) = Some r \<longrightarrow>
             mr_confirmed r \<and> mr_reason r = JStr (um_reason m)
             \<and> \<not> list_all isWhiteSpace (um_reason m))
       \<and> (\<forall>r. snd (handleCancel m) = Some r \<longrightarrow> \<not> mr_confirmed r)"
  using assms by (auto simp: handleConfirm_def isConfirmDisabled_def handleCancel_def trim_blank)

theorem handleConfirm_requires_reason_witness:
  "um_modalType \<lparr>um_modalType = ''confirm'', um_requireReason = True, um_reason = ''  '',
       um_loading = False, um_formConfig = None, um_formData = []\<rparr> = ''confirm''
   \<and> um_requireReason \<lparr>um_modalType = ''confirm'', um_requireReason = True, um_reason = ''  '',
       um_loading = False, um_formConfig = None, um_formData = []\<rparr>
   \<and> snd (handleConfirm \<lparr>um_modalType = ''confirm'', um_requireReason = True, um_reason = ''  '',
       um_loading = False, um_formConfig = None, um_formData = []\<rparr>) = None
   \<and> isConfirmDisabled \<lparr>um_modalType = ''confirm'', um_requireReason = True, um_reason = ''  '',
       um_loading = False, um_formConfig = None, um_formData = []\<rparr>
   \<and> snd (handleConfirm \<lparr>um_modalType = ''confirm'', um_requireReason = True, um_reason = ''dup'',
       um_loading = False, um_formConfig = None, um_formData = []\<rparr>) \<noteq> None
   \<and> \<not> isConfirmDisabled \<lparr>um_modalType = ''confirm'', um_requireReason = True, um_reason = ''dup'',
       um_loading = False, um_formConfig = None, um_formData = []\<rparr>"
  using handleConfirm_requires_reason [of "\<lparr>um_modalType = ''confirm'', um_requireReason = True,
       um_reason = ''  '', um_loading = False, um_formConfig = None, um_formData = []\<rparr>"]
     handleConfirm_requires_reason [of "\<lparr>um_modalType = ''confirm'', um_requireReason = True,
       um_reason = ''dup'', um_loading = False, um_formConfig = None, um_formData = []\<rparr>"]
  by (simp add: isWhiteSpace_def)

subsection \<open>The edit permission\<close>

text \<open>
  Claim C9. When the \<open>hasEditPermission\<close> call throws, \<open>checkPermission\<close> leaves the
  component exactly as an answer \<open>false\<close> does: \<open>hasEdit\<close> is false. In the creator the
  create button is disabled and \<open>handleCreateWorkItem\<close> invokes no \<open>createWorkItem\<close>;
  in the manager the create button is disabled and the columns offer the row action
  \<open>open_azure\<close> only.
\<close>

theorem permission_failure_is_denial:
  "checkPermission_creator c (Rejected e) = checkPermission_creator c (Resolved (JBool False))
   \<and> cr_hasEdit (checkPermission_creator c (Rejected e)) = False
   \<and> isCreateDisabled (checkPermission_creator c (Rejected e))
   \<and> (\<forall>a. ApexCreateWorkItem a
           \<notin> set (snd (handleCreateWorkItem (checkPermission_creator c (Rejected e)) outcome)))
   \<and> checkPermission_manager m (Rejected e) = checkPermission_manager m (Resolved (JBool False))
   \<and> mg_hasEdit (checkPermission_manager m (Rejected e)) = False
   \<and> createDisabled (checkPermission_manager m (Rejected e))
   \<and> offeredActions (mg_columns (checkPermission_manager m (Rejected e))) = [''open_azure'']"
  by (simp add: checkPermission_creator_def checkPermission_manager_def isCreateDisabled_def
      handleCreateWorkItem_def showErrorToast_def createDisabled_def buildColumns_def
      rowActions_def offeredActions_def)

theorem permission_failure_is_denial_witness:
  "cr_hasEdit (checkPermission_creator (newCreator\<lparr>cr_hasEdit := True\<rparr>) (Rejected typeError)) = False
   \<and> isCreateDisabled (checkPermission_creator (newCreator\<lparr>cr_hasEdit := True\<rparr>) (Rejected typeError))
   \<and> mg_hasEdit (checkPermission_manager (newManager\<lparr>mg_hasEdit := True\<rparr>) (Rejected typeError)) = False
   \<and> offeredActions (mg_columns (checkPermission_manager (newManager\<lparr>mg_hasEdit := True\<rparr>)
         (Rejected typeError))) = [''open_azure'']"
  using permission_failure_is_denial [of "newCreator\<lparr>cr_hasEdit := True\<rparr>" typeError
      "Rejected typeError" "newManager\<lparr>mg_hasEdit := True\<rparr>"]
  by blast

text \<open>
  Claim C4. While \<open>hasEdit\<close> is false, \<open>handleCreateWorkItem\<close> of the creator only shows
  the error toast \<open>Permission Denied\<close>, leaves the component unchanged and invokes no
  \<open>createWorkItem\<close>, whatever the server would answer; and the action column that
  \<open>buildColumns\<close> of the manager builds offers \<open>Open in Azure\<close> only, neither \<open>Edit\<close> nor
  \<open>Delete\<close>.
\<close>

theorem no_write_without_edit_permission:
  assumes "\<not> cr_hasEdit c" and "\<not> mg_hasEdit m"
  shows "handleCreateWorkItem c outcome =
           (c, [showErrorToast ''Permission Denied''
                  (JStr ''You do not have permission to create work items.'')])
       \<and> (\<forall>a. ApexCreateWorkItem a \<notin> set (snd (handleCreateWorkItem c outcome)))
       \<and> rowActions m = [\<lparr>ra_label = ''Open in Azure'', ra_name = ''open_azure''\<rparr>]
       \<and> offeredActions (buildColumns m) = [''open_azure'']
       \<and> ''edit'' \<notin> set (offeredActions (buildColumns m))
       \<and> ''delete'' \<notin> set (offeredActions (buildColumns m))"
  using assms
  by (simp add: handleCreateWorkItem_def showErrorToast_def buildColumns_def
      rowActions_def offeredActions_def)

theorem no_write_without_edit_permission_witness:
  "\<not> cr_hasEdit (newCreator\<lparr>cr_selectedConfig := ''standard'', cr_selectedWorkItemType := ''Task'',
        cr_title := ''Fix login bug''\<rparr>)
   \<and> \<not> mg_hasEdit newManager
   \<and> snd (handleCreateWorkItem (newCreator\<lparr>cr_selectedConfig := ''standard'',
        cr_selectedWorkItemType := ''Task'', cr_title := ''Fix login bug''\<rparr>) (Resolved None)) =
       [showErrorToast ''Permission Denied''
          (JStr ''You do not have permission to create work items.'')]
   \<and> offeredActions (buildColumns newManager) = [''open_azure'']"
  using no_write_without_edit_permission [of "newCreator\<lparr>cr_selectedConfig := ''standard'',
        cr_selectedWorkItemType := ''Task'', cr_title := ''Fix login bug''\<rparr>" newManager "Resolved None"]
  by (simp add: newCreator_def newManager_def)

subsection \<open>Priorities\<close>

text \<open>
  Claim C3. When \<open>getPriorities\<close> answers with no data, with an empty list, or fails, the
  priority options of the creator are the four defaults, whose values are the strings of
  1, 2, 3, 4 and whose labels are those strings; whatever the outcome, the options of the
  creator are not empty. The editor's \<open>wiredPriorities\<close> sets the same four defaults on an
  empty list and on an error, and its options are not empty once data or an error has
  arrived.
\<close>

theorem priorities_default_when_empty_or_failed:
  "cr_priorityOptions (fst (loadPriorities c (Resolved None))) = getDefaultPriorityOptions
   \<and> cr_priorityOptions (fst (loadPriorities c (Resolved (Some [])))) = getDefaultPriorityOptions
   \<and> cr_priorityOptions (fst (loadPriorities c (Rejected e))) = getDefaultPriorityOptions
   \<and> cr_priorityOptions (fst (loadPriorities c outcome)) \<noteq> []
   \<and> ed_priorityOptions (fst (wiredPriorities ed err (Some []))) = getDefaultPriorityOptions
   \<and> ed_priorityOptions (fst (wiredPriorities ed (Some e) None)) = getDefaultPriorityOptions
   \<and> ed_priorityOptions (fst (wiredPriorities ed err (Some d))) \<noteq> []
   \<and> ed_priorityOptions (fst (wiredPriorities ed (Some e) data)) \<noteq> []
   \<and> map opt_value getDefaultPriorityOptions = [JStr ''1'', JStr ''2'', JStr ''3'', JStr ''4'']
   \<and> map opt_label getDefaultPriorityOptions = [JStr ''1'', JStr ''2'', JStr ''3'', JStr ''4'']
   \<and> map (js_parseInt \<circ> opt_value) getDefaultPriorityOptions = [JNum 1, JNum 2, JNum 3, JNum 4]"
proof -
  have d: "defaultPriorityOptions_editor = getDefaultPriorityOptions"
    by (simp add: defaultPriorityOptions_editor_def getDefaultPriorityOptions_def)
  have ne: "getDefaultPriorityOptions \<noteq> []"
    by (simp add: getDefaultPriorityOptions_def)
  have c1: "cr_priorityOptions (fst (loadPriorities c outcome)) \<noteq> []"
    using ne by (auto simp: loadPriorities_def split: promise.splits option.splits list.splits)
  have e1: "ed_priorityOptions (fst (wiredPriorities ed err (Some d))) \<noteq> []" for d
    using ne by (cases d) (simp_all add: wiredPriorities_def d Let_def)
  have e2: "ed_priorityOptions (fst (wiredPriorities ed (Some e) data)) \<noteq> []"
    using ne e1 by (cases data) (simp_all add: wiredPriorities_def d)
  have p: "map (js_parseInt \<circ> opt_value) getDefaultPriorityOptions = [JNum 1, JNum 2, JNum 3, JNum 4]"
    by (simp add: getDefaultPriorityOptions_def js_parseInt_def parseInt10_def parseDigits_def
        digitVal_def isWhiteSpace_def)
  show ?thesis
    using c1 e1 e2 p
    by (simp add: loadPriorities_def wiredPriorities_def d getDefaultPriorityOptions_def)
qed

theorem priorities_default_when_empty_or_failed_witness:
  "cr_priorityOptions (fst (loadPriorities newCreator (Resolved (Some [])))) =
     [\<lparr>opt_label = JStr ''1'', opt_value = JStr ''1'', opt_description = JUndefined\<rparr>,
      \<lparr>opt_label = JStr ''2'', opt_value = JStr ''2'', opt_description = JUndefined\<rparr>,
      \<lparr>opt_label = JStr ''3'', opt_value = JStr ''3'', opt_description = JUndefined\<rparr>,
      \<lparr>opt_label = JStr ''4'', opt_value = JStr ''4'', opt_description = JUndefined\<rparr>]
   \<and> cr_priorityOptions (fst (loadPriorities newCreator (Rejected typeError))) =
     [\<lparr>opt_label = JStr ''1'', opt_value = JStr ''1'', opt_description = JUndefined\<rparr>,
      \<lparr>opt_label = JStr ''2'', opt_value = JStr ''2'', opt_description = JUndefined\<rparr>,
      \<lparr>opt_label = JStr ''3'', opt_value = JStr ''3'', opt_description = JUndefined\<rparr>,
      \<lparr>opt_label = JStr ''4'', opt_value = JStr ''4'', opt_description = JUndefined\<rparr>]"
  using priorities_default_when_empty_or_failed [of newCreator typeError "Resolved None"]
  by (simp add: getDefaultPriorityOptions_def)

subsection \<open>Deleting a work item\<close>

lemma loadWorkItems_no_delete: "\<not> list_ex isDeleteCall (snd (loadWorkItems m outcome))"
  by (auto simp: loadWorkItems_def handleError_def Let_def list_ex_iff
      split: promise.splits sum.splits prod.splits if_splits)

lemma load_no_delete: "\<not> list_ex isDeleteCall (snd (load l outcome))"
  by (auto simp: load_def showErrorToast_def Let_def list_ex_iff
      split: promise.splits sum.splits prod.splits if_splits)

lemma filter_no_delete: "\<not> list_ex isDeleteCall xs \<Longrightarrow> filter isDeleteCall xs = []"
  by (induction xs) auto

lemma handleDeleteAction_calls:
  "filter isDeleteCall (snd (handleDeleteAction m row modalResult delOutcome loadOutcome)) =
     (if notConfirmed modalResult then []
      else [ApexDeleteWorkItemWithReason (deleteRequest_manager m row modalResult)])"
proof (cases "notConfirmed modalResult")
  case True
  then show ?thesis by (simp add: handleDeleteAction_def)
next
  case False
  have l: "filter isDeleteCall (snd (loadWorkItems m loadOutcome)) = []"
    by (rule filter_no_delete) (rule loadWorkItems_no_delete)
  show ?thesis
    using False l
    by (cases delOutcome)
       (auto simp: handleDeleteAction_def handleError_def showErrorToast_def showSuccessToast_def
          Let_def split: prod.splits)
qed

lemma handleRowAction_list_calls:
  "filter isDeleteCall (snd (handleRowAction_list l a r modalResult delOutcome loadOutcome)) =
     (if strict_eq a (JStr ''delete'') \<and> \<not> notConfirmed modalResult
      then [ApexDeleteWorkItemWithReason (deleteRequest_list l r modalResult)]
      else [])"
proof (cases "strict_eq a (JStr ''delete'') \<and> \<not> notConfirmed modalResult")
  case False
  then show ?thesis by (auto simp: handleRowAction_list_def)
next
  case True
  have ld: "filter isDeleteCall (snd (load l loadOutcome)) = []"
    by (rule filter_no_delete) (rule load_no_delete)
  show ?thesis
    using True ld
    by (cases delOutcome)
       (auto simp: handleRowAction_list_def showErrorToast_def showSuccessToast_def
          Let_def split: prod.splits)
qed

text \<open>
  Claim C10. \<open>handleDeleteAction\<close> invokes \<open>deleteWorkItemWithReason\<close> at most once, and
  it invokes it exactly when the confirmation modal resolved with a confirmed result. The
  reason it forwards is the reason of that result when this is a non-empty string, and
  \<open>null\<close> otherwise: an empty string and a missing reason both become \<open>null\<close>, as does the
  reason of the modal confirmed with nothing typed. The row action \<open>delete\<close> of
  \<open>AzureWorkItemList\<close> behaves the same.
\<close>

theorem delete_invoked_once_when_confirmed:
  "length (filter isDeleteCall (snd (handleDeleteAction m row modalResult delOutcome loadOutcome))) \<le> 1
   \<and> (filter isDeleteCall (snd (handleDeleteAction m row modalResult delOutcome loadOutcome)) \<noteq> [])
       = (\<exists>r. modalResult = Some r \<and> mr_confirmed r)
   \<and> (\<forall>a. ApexDeleteWorkItemWithReason a
             \<in> set (snd (handleDeleteAction m row modalResult delOutcome loadOutcome)) \<longrightarrow>
           (\<exists>r. modalResult = Some r \<and> mr_confirmed r
                \<and> da_reason a = (if truthy (mr_reason r) then mr_reason r else JNull)))
   \<and> length (filter isDeleteCall (snd (handleRowAction_list l act row modalResult delOutcome loadOutcome))) \<le> 1
   \<and> (\<forall>a. ApexDeleteWorkItemWithReason a
             \<in> set (snd (handleRowAction_list l act row modalResult delOutcome loadOutcome)) \<longrightarrow>
           (\<exists>r. modalResult = Some r \<and> mr_confirmed r
                \<and> da_reason a = (if truthy (mr_reason r) then mr_reason r else JNull)))
   \<and> reasonOrNull (Some (r0\<lparr>mr_reason := JStr []\<rparr>)) = JNull
   \<and> reasonOrNull (Some (r0\<lparr>mr_reason := JUndefined\<rparr>)) = JNull
   \<and> reasonOrNull (snd (handleConfirm (openModal deleteModalOptions))) = JNull"
proof -
  have nc: "(\<not> notConfirmed modalResult) = (\<exists>r. modalResult = Some r \<and> mr_confirmed r)"
    by (cases modalResult) (simp_all add: notConfirmed_def)
  have m1: "ApexDeleteWorkItemWithReason a \<in> set xs \<Longrightarrow>
            ApexDeleteWorkItemWithReason a \<in> set (filter isDeleteCall xs)" for a xs
    by simp
  have a1: "\<exists>r. modalResult = Some r \<and> mr_confirmed r
                \<and> da_reason a = (if truthy (mr_reason r) then mr_reason r else JNull)"
    if "ApexDeleteWorkItemWithReason a
             \<in> set (snd (handleDeleteAction m row modalResult delOutcome loadOutcome))" for a
    using m1[OF that] nc
    by (auto simp: handleDeleteAction_calls deleteRequest_manager_def reasonOrNull_def js_or_def
        split: if_splits)
  have a2: "\<exists>r. modalResult = Some r \<and> mr_confirmed r
                \<and> da_reason a = (if truthy (mr_reason r) then mr_reason r else JNull)"
    if "ApexDeleteWorkItemWithReason a
             \<in> set (snd (handleRowAction_list l act row modalResult delOutcome loadOutcome))" for a
    using m1[OF that] nc
    by (auto simp: handleRowAction_list_calls deleteRequest_list_def reasonOrNull_def js_or_def
        split: if_splits)
  have r3: "reasonOrNull (snd (handleConfirm (openModal deleteModalOptions))) = JNull"
    by (simp add: reasonOrNull_def handleConfirm_def openModal_def deleteModalOptions_def js_or_def)
  have c1: "length (filter isDeleteCall (snd (handleDeleteAction m row modalResult delOutcome loadOutcome))) \<le> 1"
    by (simp add: handleDeleteAction_calls)
  have c2: "(filter isDeleteCall (snd (handleDeleteAction m row modalResult delOutcome loadOutcome)) \<noteq> [])
       = (\<exists>r. modalResult = Some r \<and> mr_confirmed r)"
    unfolding handleDeleteAction_calls using nc by auto
  have c3: "length (filter isDeleteCall (snd (handleRowAction_list l act row modalResult delOutcome loadOutcome))) \<le> 1"
    by (simp add: handleRowAction_list_calls)
  have r1: "reasonOrNull (Some (r0\<lparr>mr_reason := JStr []\<rparr>)) = JNull"
    by (simp add: reasonOrNull_def js_or_def)
  have r2: "reasonOrNull (Some (r0\<lparr>mr_reason := JUndefined\<rparr>)) = JNull"
    by (simp add: reasonOrNull_def js_or_def)
  show ?thesis
    using a1 a2 r1 r2 r3 c1 c2 c3 by blast
qed

theorem delete_invoked_once_when_confirmed_witness:
  "filter isDeleteCall
     (snd (handleDeleteAction (newManager\<lparr>mg_selectedConfig := ''standard''\<rparr>)
        (sampleItem 7 ''Fix login bug'' ''Task'' ''To Do'')
        (snd (handleConfirm (openModal deleteModalOptions)))
        (Resolved None) (Resolved None))) =
     [ApexDeleteWorkItemWithReason
        \<lparr>da_configName = JStr ''standard'', da_workItemId = JNum 7, da_reason = JNull\<rparr>]
   \<and> filter isDeleteCall
     (snd (handleDeleteAction (newManager\<lparr>mg_selectedConfig := ''standard''\<rparr>)
        (sampleItem 7 ''Fix login bug'' ''Task'' ''To Do'')
        (snd (handleCancel (openModal deleteModalOptions)))
        (Resolved None) (Resolved None))) = []
   \<and> reasonOrNull (snd (handleConfirm (openModal deleteModalOptions))) = JNull"
  using delete_invoked_once_when_confirmed
    [of "newManager\<lparr>mg_selectedConfig := ''standard''\<rparr>"
        "sampleItem 7 ''Fix login bug'' ''Task'' ''To Do''"
        "snd (handleConfirm (openModal deleteModalOptions))" "Resolved None" "Resolved None"]
  by (simp add: handleDeleteAction_calls deleteRequest_manager_def notConfirmed_def
      handleConfirm_def handleCancel_def openModal_def deleteModalOptions_def newManager_def
      sampleItem_def num_val_def js_or_def reasonOrNull_def)

subsection \<open>The default of \<open>maxResults\<close>\<close>

text \<open>
  Claim C5. \<open>fetchWorkItems\<close> called without \<open>maxResults\<close> issues the \<open>getWorkItems\<close>
  request with \<open>maxResults = 50\<close>, and so does \<open>loadWorkItems\<close> of the manager when its
  \<open>maxRows\<close> is not set to a truthy value; the request is the first effect of
  \<open>loadWorkItems\<close>. In the service, an unspecified \<open>maxResults\<close> is 50, a value that is
  not positive fails with \<open>ValidationError\<close>, and a positive value bounds the number of
  items returned.
\<close>

theorem maxResults_defaults_to_50:
  "(fa_maxResults a = JUndefined \<longrightarrow> ga_maxResults (fetchWorkItems a) = JNum 50)
   \<and> (\<not> truthy (mg_maxRows m) \<longrightarrow> ga_maxResults (loadRequest m) = JNum 50)
   \<and> (truthy (mg_maxRows m) \<longrightarrow> ga_maxResults (loadRequest m) = mg_maxRows m)
   \<and> (mg_selectedConfig m \<noteq> [] \<longrightarrow>
        (\<exists>effs. snd (loadWorkItems m outcome) = ApexGetWorkItems (loadRequest m) # effs))
   \<and> getWorkItems_service remote t s None = getWorkItems_service remote t s (Some 50)
   \<and> (n \<le> 0 \<longrightarrow> getWorkItems_service remote t s (Some n) = Inl ValidationError)
   \<and> (0 < n \<longrightarrow> (\<exists>items. getWorkItems_service remote t s (Some n) = Inr items
                       \<and> int (length items) \<le> n))"
proof -
  have b: "int (length (filter P (take (nat n) remote))) \<le> n" if "0 < n" for P
  proof -
    have "length (filter P (take (nat n) remote)) \<le> length (take (nat n) remote)"
      by (rule length_filter_le)
    also have "\<dots> \<le> nat n" by simp
    finally show ?thesis using that by linarith
  qed
  have l: "\<exists>effs. snd (loadWorkItems m outcome) = ApexGetWorkItems (loadRequest m) # effs"
    if "mg_selectedConfig m \<noteq> []"
    using that by (simp add: loadWorkItems_def Let_def split: prod.splits)
  show ?thesis
    using b l
    by (simp add: fetchWorkItems_def withDefault_def loadRequest_def js_or_def
        getWorkItems_service_def Let_def)
qed

theorem maxResults_defaults_to_50_witness:
  "ga_maxResults (fetchWorkItems \<lparr>fa_configName = JStr ''standard'', fa_workItemType = JUndefined,
       fa_state = JUndefined, fa_maxResults = JUndefined\<rparr>) = JNum 50
   \<and> ga_maxResults (loadRequest (newManager\<lparr>mg_maxRows := JUndefined\<rparr>)) = JNum 50
   \<and> ga_maxResults (loadRequest (newManager\<lparr>mg_maxRows := JNum 0\<rparr>)) = JNum 50
   \<and> getWorkItems_service [sampleItem 1 ''a'' ''Task'' ''To Do''] None None (Some 0) = Inl ValidationError
   \<and> getWorkItems_service [sampleItem 1 ''a'' ''Task'' ''To Do''] None None None
       = Inr [sampleItem 1 ''a'' ''Task'' ''To Do'']"
  using maxResults_defaults_to_50
     [of "\<lparr>fa_configName = JStr ''standard'', fa_workItemType = JUndefined,
       fa_state = JUndefined, fa_maxResults = JUndefined\<rparr>" "newManager\<lparr>mg_maxRows := JUndefined\<rparr>"
       "Resolved None" "[sampleItem 1 ''a'' ''Task'' ''To Do'']" None None 0]
    maxResults_defaults_to_50
     [of _ "newManager\<lparr>mg_maxRows := JNum 0\<rparr>"]
  by (simp add: getWorkItems_service_def optionalFilter_def)

subsection \<open>The priority is sent as a number\<close>














subsection \<open>Filtering the fetched work items\<close>

lemma insertBy_mset: "insertBy cmp x ys = Inr r \<Longrightarrow> mset r = add_mset x (mset ys)"
proof (induction ys arbitrary: r)
  case Nil
  then show ?case by auto
next
  case (Cons y ys)
  then show ?case
    by (auto split: sum.splits if_splits)
qed

lemma sortBy_mset: "sortBy cmp xs = Inr r \<Longrightarrow> mset r = mset xs"
proof (induction xs arbitrary: r)
  case Nil
  then show ?case by simp
next
  case (Cons x xs)
  then show ?case
    by (auto split: sum.splits dest: insertBy_mset)
qed

lemma insertBy_total:
  "\<forall>y\<in>set ys. \<exists>c. cmp x y = Inr c \<Longrightarrow> \<exists>r. insertBy cmp x ys = Inr r"
  by (induction ys) (auto split: sum.splits)

lemma sortBy_total:
  "\<forall>x\<in>set xs. \<forall>y\<in>set xs. \<exists>c. cmp x y = Inr c \<Longrightarrow> \<exists>r. sortBy cmp xs = Inr r"
proof (induction xs)
  case Nil
  then show ?case by simp
next
  case (Cons x xs)
  then obtain r where r: "sortBy cmp xs = Inr r" by auto
  then have "set r = set xs"
    by (metis sortBy_mset set_mset_mset)
  with Cons.prems have "\<forall>y\<in>set r. \<exists>c. cmp x y = Inr c" by simp
  then obtain r' where "insertBy cmp x r = Inr r'"
    using insertBy_total [of r cmp x] by blast
  with r show ?case by simp
qed

lemma compareItems_defined:
  "(is_string (wi_prop k a) \<longrightarrow> is_string (wi_prop k b)) \<Longrightarrow> \<exists>c. compareItems k rv a b = Inr c"
  by (cases "wi_prop k a"; cases "wi_prop k b") (simp_all add: compareItems_def Let_def)

lemma sortData_total:
  assumes "sortKeysUniform (mg_sortedBy m) d"
  shows "\<exists>r. sortData m d = Inr r"
proof -
  have "\<forall>x\<in>set d. \<forall>y\<in>set d. \<exists>c. compareItems (mg_sortedBy m)
          (if mg_sortedDirection m = ''desc'' then - 1 else 1) x y = Inr c"
    using assms by (auto simp: sortKeysUniform_def list_all_iff intro!: compareItems_defined)
  from sortBy_total [OF this] show ?thesis
    by (simp add: sortData_def Let_def)
qed

lemma sortKeysUniform_filter:
  "sortKeysUniform k xs \<Longrightarrow> sortKeysUniform k (filter P xs)"
  by (auto simp: sortKeysUniform_def list_all_iff)

lemma toLowerCase_Nil: "(toLowerCase s = []) = (s = [])"
  by (simp add: toLowerCase_def)

lemma filterItems_eq:
  "filterItems m =
     filter (\<lambda>i. (mg_searchTerm m = [] \<or> matchesSearch (toLowerCase (mg_searchTerm m)) i)
                \<and> (mg_selectedTypeFilter m = [] \<or> wi_workItemType i = Some (mg_selectedTypeFilter m))
                \<and> (mg_selectedStateFilter m = [] \<or> wi_state i = Some (mg_selectedStateFilter m)))
       (mg_workItems m)"
  by (simp add: filterItems_def Let_def toLowerCase_Nil conj_commute conj_left_commute)

lemma sortKeysUniform_filterItems:
  "sortKeysUniform k (mg_workItems m) \<Longrightarrow> sortKeysUniform k (filterItems m)"
  unfolding filterItems_eq by (rule sortKeysUniform_filter)

text \<open>
  Claim C7 fails as stated. With the type filter \<open>Task\<close> and the state filter \<open>Done\<close>
  both selected, a fetched item of type \<open>Task\<close> in another state is not displayed, so the
  displayed items are not exactly the fetched items of the selected type; and with no
  filter selected but the search term \<open>B\<close> entered, a fetched item that does not contain
  it is not displayed.
\<close>

theorem filters_combine_counterexample:
  "applyFilters (newManager\<lparr>mg_workItems := [sampleItem 1 ''b'' ''Task'' ''Done'', sampleItem 2 ''a'' ''Task'' ''To Do''],
       mg_selectedTypeFilter := ''Task'', mg_selectedStateFilter := ''Done''\<rparr>)
     = Inr (newManager\<lparr>mg_workItems := [sampleItem 1 ''b'' ''Task'' ''Done'', sampleItem 2 ''a'' ''Task'' ''To Do''],
       mg_selectedTypeFilter := ''Task'', mg_selectedStateFilter := ''Done'',
       mg_filteredWorkItems := [sampleItem 1 ''b'' ''Task'' ''Done'']\<rparr>)
   \<and> wi_workItemType (sampleItem 2 ''a'' ''Task'' ''To Do'') = Some ''Task''
   \<and> sampleItem 2 ''a'' ''Task'' ''To Do'' \<notin> set [sampleItem 1 ''b'' ''Task'' ''Done'']
   \<and> applyFilters (newManager\<lparr>mg_workItems := [sampleItem 1 ''b'' ''Task'' ''Done'', sampleItem 2 ''a'' ''Task'' ''To Do''],
       mg_searchTerm := ''B''\<rparr>)
     = Inr (newManager\<lparr>mg_workItems := [sampleItem 1 ''b'' ''Task'' ''Done'', sampleItem 2 ''a'' ''Task'' ''To Do''],
       mg_searchTerm := ''B'',
       mg_filteredWorkItems := [sampleItem 1 ''b'' ''Task'' ''Done'']\<rparr>)"
  by (simp add: applyFilters_def filterItems_def sortData_def newManager_def sampleItem_def toLowerCase_def
     compareItems_def wi_prop_def str_val_def num_val_def js_lt_def toLowerChar_def upperLetters_def lowerLetters_def
     matchesSearch_def orEmpty_def digitChar_def digitsOf.simps)

text \<open>
  The comparator of \<open>sortData\<close> calls \<open>toLowerCase\<close> on the second value without the
  guard the search uses, so a fetched item without a title among titled ones makes
  \<open>applyFilters\<close> raise: nothing is displayed anew.
\<close>

lemma sortData_raises_on_missing_title:
  "applyFilters (newManager\<lparr>mg_workItems := [sampleItem 1 ''b'' ''Task'' ''Done'',
       (sampleItem 2 ''a'' ''Task'' ''To Do'')\<lparr>wi_title := None\<rparr>, sampleItem 3 ''c'' ''Bug'' ''Done'']\<rparr>)
   = Inl typeError"
  by (simp add: applyFilters_def filterItems_def sortData_def newManager_def sampleItem_def toLowerCase_def
     compareItems_def wi_prop_def str_val_def js_lt_def toLowerChar_def upperLetters_def lowerLetters_def
     strToNumber_def trim_def isWhiteSpace_def digitVal_def)

lemma applyFilters_shown:
  assumes "sortKeysUniform (mg_sortedBy m) (mg_workItems m)"
  shows "\<exists>shown. applyFilters m = Inr (m\<lparr>mg_filteredWorkItems := shown\<rparr>)
                 \<and> mset shown = mset (filterItems m)"
proof -
  obtain r where r: "sortData m (filterItems m) = Inr r"
    using sortData_total [OF sortKeysUniform_filterItems [OF assms]] by blast
  then have "mset r = mset (filterItems m)"
    by (simp add: sortData_def Let_def sortBy_mset)
  with r show ?thesis
    by (auto simp: applyFilters_def)
qed

lemma loadWorkItems_shown:
  assumes "mg_selectedConfig m \<noteq> []" and "res_success res"
      and "sortKeysUniform (mg_sortedBy m) (map withId (itemsOrEmpty res))"
  shows "mset (mg_filteredWorkItems (fst (loadWorkItems m (Resolved res)))) =
         mset (filterItems (m\<lparr>mg_workItems := map withId (itemsOrEmpty res)\<rparr>))"
proof -
  let ?m0 = "m\<lparr>mg_workItems := map withId (itemsOrEmpty res)\<rparr>"
  have "sortKeysUniform (mg_sortedBy ?m0) (mg_workItems ?m0)"
    using assms(3) by simp
  from applyFilters_shown [OF this] obtain shown
    where "applyFilters ?m0 = Inr (?m0\<lparr>mg_filteredWorkItems := shown\<rparr>)"
      and "mset shown = mset (filterItems ?m0)"
    by blast
  with assms(1,2) show ?thesis
    by (simp add: loadWorkItems_def calculateStats_def Let_def)
qed

text \<open>
  Claim C7, as amended. \<open>applyFilters\<close> works on the items already fetched. Provided the
  sort column holds a string in every fetched item or in none, it displays exactly the
  fetched items that pass every active criterion, in the order \<open>sortData\<close> gives them: the
  type equals the selected type filter, the state equals the selected state filter, and
  the title, the identifier or the assignee contains the search term, each criterion
  counting only when it is set. So a type filter alone displays exactly the items of that
  type, a state filter alone exactly the items in that state, and with no criterion set
  every fetched item is displayed. \<open>loadWorkItems\<close> applies the same to the items of a
  successful response.
\<close>

theorem filters_applied_after_fetch:
  assumes "sortKeysUniform (mg_sortedBy m) (mg_workItems m)"
  shows "(\<exists>shown. applyFilters m = Inr (m\<lparr>mg_filteredWorkItems := shown\<rparr>)
                  \<and> mset shown = mset (filterItems m))
       \<and> filterItems m =
           filter (\<lambda>i. (mg_searchTerm m = [] \<or> matchesSearch (toLowerCase (mg_searchTerm m)) i)
                \<and> (mg_selectedTypeFilter m = [] \<or> wi_workItemType i = Some (mg_selectedTypeFilter m))
                \<and> (mg_selectedStateFilter m = [] \<or> wi_state i = Some (mg_selectedStateFilter m)))
             (mg_workItems m)
       \<and> (mg_searchTerm m = [] \<and> mg_selectedStateFilter m = [] \<and> mg_selectedTypeFilter m \<noteq> [] \<longrightarrow>
            filterItems m = filter (\<lambda>i. wi_workItemType i = Some (mg_selectedTypeFilter m)) (mg_workItems m))
       \<and> (mg_searchTerm m = [] \<and> mg_selectedTypeFilter m = [] \<and> mg_selectedStateFilter m \<noteq> [] \<longrightarrow>
            filterItems m = filter (\<lambda>i. wi_state i = Some (mg_selectedStateFilter m)) (mg_workItems m))
       \<and> (mg_searchTerm m = [] \<and> mg_selectedTypeFilter m = [] \<and> mg_selectedStateFilter m = [] \<longrightarrow>
            filterItems m = mg_workItems m)
       \<and> (\<forall>res. mg_selectedConfig m \<noteq> [] \<and> res_success res
               \<and> sortKeysUniform (mg_sortedBy m) (map withId (itemsOrEmpty res)) \<longrightarrow>
             mset (mg_filteredWorkItems (fst (loadWorkItems m (Resolved res)))) =
             mset (filterItems (m\<lparr>mg_workItems := map withId (itemsOrEmpty res)\<rparr>)))"
proof -
  have b: "mg_searchTerm m = [] \<and> mg_selectedStateFilter m = [] \<and> mg_selectedTypeFilter m \<noteq> [] \<longrightarrow>
            filterItems m = filter (\<lambda>i. wi_workItemType i = Some (mg_selectedTypeFilter m)) (mg_workItems m)"
    by (simp add: filterItems_def Let_def toLowerCase_Nil)
  have c: "mg_searchTerm m = [] \<and> mg_selectedTypeFilter m = [] \<and> mg_selectedStateFilter m \<noteq> [] \<longrightarrow>
            filterItems m = filter (\<lambda>i. wi_state i = Some (mg_selectedStateFilter m)) (mg_workItems m)"
    by (simp add: filterItems_def Let_def toLowerCase_Nil)
  have d: "mg_searchTerm m = [] \<and> mg_selectedTypeFilter m = [] \<and> mg_selectedStateFilter m = [] \<longrightarrow>
            filterItems m = mg_workItems m"
    by (simp add: filterItems_def Let_def toLowerCase_Nil)
  show ?thesis
    using applyFilters_shown [OF assms] b c d filterItems_eq [of m] loadWorkItems_shown [of m]
    by blast
qed

theorem filters_applied_after_fetch_witness:
  "sortKeysUniform ''title'' [sampleItem 1 ''b'' ''Task'' ''Done'', sampleItem 2 ''a'' ''Bug'' ''To Do'',
        sampleItem 3 ''c'' ''Task'' ''To Do'']
   \<and> filterItems (newManager\<lparr>mg_workItems := [sampleItem 1 ''b'' ''Task'' ''Done'',
        sampleItem 2 ''a'' ''Bug'' ''To Do'', sampleItem 3 ''c'' ''Task'' ''To Do''],
        mg_selectedTypeFilter := ''Task''\<rparr>)
      = [sampleItem 1 ''b'' ''Task'' ''Done'', sampleItem 3 ''c'' ''Task'' ''To Do'']
   \<and> applyFilters (newManager\<lparr>mg_workItems := [sampleItem 1 ''b'' ''Task'' ''Done'',
        sampleItem 2 ''a'' ''Bug'' ''To Do'', sampleItem 3 ''c'' ''Task'' ''To Do''],
        mg_selectedTypeFilter := ''Task''\<rparr>)
      = Inr (newManager\<lparr>mg_workItems := [sampleItem 1 ''b'' ''Task'' ''Done'',
        sampleItem 2 ''a'' ''Bug'' ''To Do'', sampleItem 3 ''c'' ''Task'' ''To Do''],
        mg_selectedTypeFilter := ''Task'',
        mg_filteredWorkItems := [sampleItem 1 ''b'' ''Task'' ''Done'', sampleItem 3 ''c'' ''Task'' ''To Do'']\<rparr>)"
proof -
  have h: "sortKeysUniform (mg_sortedBy (newManager\<lparr>mg_workItems := [sampleItem 1 ''b'' ''Task'' ''Done'',
        sampleItem 2 ''a'' ''Bug'' ''To Do'', sampleItem 3 ''c'' ''Task'' ''To Do''],
        mg_selectedTypeFilter := ''Task''\<rparr>))
       (mg_workItems (newManager\<lparr>mg_workItems := [sampleItem 1 ''b'' ''Task'' ''Done'',
        sampleItem 2 ''a'' ''Bug'' ''To Do'', sampleItem 3 ''c'' ''Task'' ''To Do''],
        mg_selectedTypeFilter := ''Task''\<rparr>))"
    by (simp add: sortKeysUniform_def newManager_def sampleItem_def wi_prop_def str_val_def)
  from filters_applied_after_fetch [OF h] h show ?thesis
    by (simp add: applyFilters_def filterItems_def sortData_def newManager_def sampleItem_def toLowerCase_def
     compareItems_def wi_prop_def str_val_def num_val_def js_lt_def toLowerChar_def upperLetters_def lowerLetters_def)
qed

subsection \<open>Terminal states on create\<close>

text \<open>
  In the creator, \<open>loadStatesForType\<close> leaves the terminal states out of the options it
  offers only when \<open>modalMode\<close> is truthy; a new creator offers them.
\<close>

lemma loadStatesForType_modalMode:
  assumes "truthy (cr_modalMode c)"
      and "opt \<in> set (cr_stateOptions (fst (loadStatesForType c (Resolved (Some data)))))"
  shows "toLowerCase (trim (js_String (js_or (opt_value opt) (JStr [])))) \<notin> set terminalStates_creator"
  using assms by (auto simp: loadStatesForType_def Let_def split: if_splits)

lemma loadStatesForType_newCreator:
  "cr_stateOptions (fst (loadStatesForType newCreator
      (Resolved (Some [\<lparr>opt_label = JStr ''Done'', opt_value = JStr ''Done'',
                         opt_description = JUndefined\<rparr>])))) =
     [\<lparr>opt_label = JStr ''Done'', opt_value = JStr ''Done'', opt_description = JUndefined\<rparr>]"
  by (simp add: loadStatesForType_def newCreator_def copyStateOption_def strict_eq_def)

text \<open>
  Claim C1. When the field set of a create operation has a state field whose string value
  equals a terminal-state name up to letter case, the patch submitted for the create
  operation has no operation with the path of the state field: the state field is removed
  before encoding, and the patch is the encoding of the remaining fields, each as an
  \<open>add\<close> operation.
\<close>

theorem terminal_state_is_stripped_on_create:
  assumes "map_of flds stateField = Some (AStr v)"
      and "toLowerCase v \<in> set (map toLowerCase names)"
  shows "''/fields/System.State'' \<notin> set (map po_path (createPatch names flds))
       \<and> stateField \<notin> set (map fst (removeTerminalState names flds))
       \<and> createPatch names flds = buildPatch (filter (\<lambda>kv. fst kv \<noteq> stateField) flds)
       \<and> map po_op (createPatch names flds) = replicate (length (createPatch names flds)) ''add''"
proof -
  have k: "containsKey flds stateField"
    using assms(1) by (auto simp: containsKey_def dest: map_of_SomeD intro: rev_image_eqI)
  have r: "removeTerminalState names flds = filter (\<lambda>kv. fst kv \<noteq> stateField) flds"
    using k assms by (simp add: removeTerminalState_def matchesTerminalState_def removeKey_def)
  have p: "''/fields/System.State'' \<notin> set (map po_path (buildPatch (filter (\<lambda>kv. fst kv \<noteq> stateField) flds)))"
    by (auto simp: buildPatch_def stateField_def)
  have o: "map po_op (buildPatch xs) = replicate (length (buildPatch xs)) ''add''" for xs
    by (induction xs) (simp_all add: buildPatch_def)
  show ?thesis
    using r p o by (auto simp: createPatch_def)
qed

theorem terminal_state_is_stripped_on_create_witness:
  "map_of [(''System.Title'', AStr ''Fix login bug''), (''System.State'', AStr ''DONE'')] stateField
     = Some (AStr ''DONE'')
   \<and> toLowerCase ''DONE'' \<in> set (map toLowerCase terminalStates)
   \<and> createPatch terminalStates
        [(''System.Title'', AStr ''Fix login bug''), (''System.State'', AStr ''DONE'')]
      = [\<lparr>po_op = ''add'', po_path = ''/fields/System.Title'', po_value = AStr ''Fix login bug''\<rparr>]"
proof -
  have h1: "map_of [(''System.Title'', AStr ''Fix login bug''), (''System.State'', AStr ''DONE'')] stateField
     = Some (AStr ''DONE'')"
    by (simp add: stateField_def)
  have h2: "toLowerCase ''DONE'' \<in> set (map toLowerCase terminalStates)"
    by (simp add: terminalStates_def toLowerCase_def toLowerChar_def upperLetters_def lowerLetters_def)
  from terminal_state_is_stripped_on_create [OF h1 h2] h1 h2 show ?thesis
    by (simp add: buildPatch_def stateField_def)
qed

subsection \<open>The authentication fallback\<close>

lemma attempts_shape:
  "snd (createWorkItem_service withNamedCredential withToken config type flds)
     \<in> {[], [ViaNamedCredential], [ViaPersonalAccessToken (cfg_personalAccessToken config)],
         [ViaNamedCredential, ViaPersonalAccessToken (cfg_personalAccessToken config)]}"
  by (auto simp: createWorkItem_service_def withoutNamedCredential_def split: sum.splits)

text \<open>
  Claim C2. When the configuration has a managed credential, the managed-credential
  strategy is the first attempt. If it raises the domain exception and a secret token is
  present, the secret-token strategy is attempted once and its outcome, result or
  exception, is the outcome of the call: exactly two attempts, the managed one first. In
  every call the managed attempt, if there is one, is the first, there is at most one
  secret-token attempt and there are at most two attempts.
\<close>

theorem fallback_is_attempted_once:
  "(hasNamedCredential config
      \<and> withNamedCredential config type flds = Inl (AzureDevOpsException msg)
      \<and> hasPersonalAccessToken config \<longrightarrow>
        createWorkItem_service withNamedCredential withToken config type flds =
          (withToken (cfg_personalAccessToken config) config type flds,
           [ViaNamedCredential, ViaPersonalAccessToken (cfg_personalAccessToken config)]))
   \<and> (hasNamedCredential config \<longrightarrow>
        (\<exists>rest. snd (createWorkItem_service withNamedCredential withToken config type flds)
           = ViaNamedCredential # rest))
   \<and> (ViaNamedCredential
         \<in> set (snd (createWorkItem_service withNamedCredential withToken config type flds)) \<longrightarrow>
        (\<exists>rest. snd (createWorkItem_service withNamedCredential withToken config type flds)
           = ViaNamedCredential # rest))
   \<and> length (filter isTokenAttempt
         (snd (createWorkItem_service withNamedCredential withToken config type flds))) \<le> 1
   \<and> length (snd (createWorkItem_service withNamedCredential withToken config type flds)) \<le> 2"
proof -
  let ?R = "createWorkItem_service withNamedCredential withToken config type flds"
  have a: "hasNamedCredential config
      \<and> withNamedCredential config type flds = Inl (AzureDevOpsException msg)
      \<and> hasPersonalAccessToken config \<longrightarrow>
        ?R = (withToken (cfg_personalAccessToken config) config type flds,
              [ViaNamedCredential, ViaPersonalAccessToken (cfg_personalAccessToken config)])"
    by (simp add: createWorkItem_service_def)
  have b: "hasNamedCredential config \<longrightarrow> (\<exists>rest. snd ?R = ViaNamedCredential # rest)"
    by (auto simp: createWorkItem_service_def split: sum.splits)
  from attempts_shape [of withNamedCredential withToken config type flds]
  have c: "(ViaNamedCredential \<in> set (snd ?R) \<longrightarrow> (\<exists>rest. snd ?R = ViaNamedCredential # rest))
         \<and> length (filter isTokenAttempt (snd ?R)) \<le> 1 \<and> length (snd ?R) \<le> 2"
    by auto
  from a b c show ?thesis by blast
qed

theorem fallback_is_attempted_once_witness:
  "hasNamedCredential \<lparr>cfg_namedCredential = Some ''AzureDevOps_POC'', cfg_personalAccessToken = Some ''pat''\<rparr>
   \<and> hasPersonalAccessToken \<lparr>cfg_namedCredential = Some ''AzureDevOps_POC'', cfg_personalAccessToken = Some ''pat''\<rparr>
   \<and> createWorkItem_service
        (\<lambda>c t f. Inl (AzureDevOpsException ''401'') :: apex_exception + string)
        (\<lambda>k c t f. Inl (AzureDevOpsException ''403''))
        \<lparr>cfg_namedCredential = Some ''AzureDevOps_POC'', cfg_personalAccessToken = Some ''pat''\<rparr>
        ''Task'' [(''System.Title'', AStr ''Fix login bug'')]
      = (Inl (AzureDevOpsException ''403''), [ViaNamedCredential, ViaPersonalAccessToken (Some ''pat'')])
   \<and> createWorkItem_service
        (\<lambda>c t f. Inl (AzureDevOpsException ''401'') :: apex_exception + string)
        (\<lambda>k c t f. Inr ''created'')
        \<lparr>cfg_namedCredential = Some ''AzureDevOps_POC'', cfg_personalAccessToken = Some ''pat''\<rparr>
        ''Task'' [(''System.Title'', AStr ''Fix login bug'')]
      = (Inr ''created'', [ViaNamedCredential, ViaPersonalAccessToken (Some ''pat'')])"
  using fallback_is_attempted_once
      [of "\<lparr>cfg_namedCredential = Some ''AzureDevOps_POC'', cfg_personalAccessToken = Some ''pat''\<rparr>"
          "\<lambda>c t f. Inl (AzureDevOpsException ''401'') :: apex_exception + string"
          "''Task''" "[(''System.Title'', AStr ''Fix login bug'')]" "''401''"
          "\<lambda>k c t f. Inl (AzureDevOpsException ''403'')"]
    fallback_is_attempted_once
      [of "\<lparr>cfg_namedCredential = Some ''AzureDevOps_POC'', cfg_personalAccessToken = Some ''pat''\<rparr>"
          "\<lambda>c t f. Inl (AzureDevOpsException ''401'') :: apex_exception + string"
          "''Task''" "[(''System.Title'', AStr ''Fix login bug'')]" "''401''"
          "\<lambda>k c t f. Inr ''created''"]
  by (simp add: hasNamedCredential_def hasPersonalAccessToken_def)

end
